theory Spec2Isabelle
  imports Complex_Main "HOL-Library.Sublist"
begin

section \<open>JavaScript values used by the route handlers\<close>

text \<open>
  The handlers are TypeScript route handlers that talk to two collaborators: the
  payment provider (Stripe) and the relational store (Supabase). Strings are lists of
  characters; the character classes below are the ASCII part of what JavaScript uses.
\<close>

subsection \<open>Strings\<close>

definition is_digit :: "char \<Rightarrow> bool" where
  "is_digit c = (c \<in> set ''0123456789'')"

definition is_space :: "char \<Rightarrow> bool" where
  \<comment> \<open>tab, line feed, vertical tab, form feed, carriage return, space\<close>
  "is_space c = (c \<in> set [CHR 0x09, CHR 0x0A, CHR 0x0B, CHR 0x0C, CHR 0x0D, CHR '' ''])"

definition trim :: "string \<Rightarrow> string" where
  \<comment> \<open>\<^verbatim>\<open>String.prototype.trim\<close>\<close>
  "trim s = rev (dropWhile is_space (rev (dropWhile is_space s)))"

definition toLowerCase_char :: "char \<Rightarrow> char" where
  "toLowerCase_char c =
     (case map_of (zip ''ABCDEFGHIJKLMNOPQRSTUVWXYZ'' ''abcdefghijklmnopqrstuvwxyz'') c of
        Some l \<Rightarrow> l
      | None \<Rightarrow> c)"

definition toLowerCase :: "string \<Rightarrow> string" where
  \<comment> \<open>\<^verbatim>\<open>String.prototype.toLowerCase\<close>\<close>
  "toLowerCase s = map toLowerCase_char s"

fun includes_str :: "string \<Rightarrow> string \<Rightarrow> bool" where
  \<comment> \<open>\<^verbatim>\<open>haystack.includes(needle)\<close>: the needle starts at some position of the haystack\<close>
  "includes_str [] needle = (needle = [])"
| "includes_str (c # cs) needle = (prefix needle (c # cs) \<or> includes_str cs needle)"

fun replace_non_digits :: "string \<Rightarrow> string" where
  \<comment> \<open>\<^verbatim>\<open>s.replace(/\D/g, '')\<close>: every character matching \<^verbatim>\<open>\D\<close> is replaced by the empty string\<close>
  "replace_non_digits [] = []"
| "replace_non_digits (c # cs) =
     (if \<not> is_digit c then replace_non_digits cs else c # replace_non_digits cs)"

definition slice0 :: "nat \<Rightarrow> string \<Rightarrow> string" where
  \<comment> \<open>\<^verbatim>\<open>s.slice(0, n)\<close>\<close>
  "slice0 n s = take n s"

definition truthy :: "string option \<Rightarrow> bool" where
  \<comment> \<open>truthiness of an optional string: \<^verbatim>\<open>undefined\<close>, \<^verbatim>\<open>null\<close> and \<^verbatim>\<open>''\<close> are falsy\<close>
  "truthy v = (case v of None \<Rightarrow> False | Some s \<Rightarrow> s \<noteq> [])"

definition or_string :: "string option \<Rightarrow> string \<Rightarrow> string" where
  \<comment> \<open>\<^verbatim>\<open>a || d\<close> where \<open>d\<close> is a string\<close>
  "or_string a d = (case a of None \<Rightarrow> d | Some s \<Rightarrow> if s \<noteq> [] then s else d)"

definition or_null :: "string \<Rightarrow> string option" where
  \<comment> \<open>\<^verbatim>\<open>s || null\<close>\<close>
  "or_null s = (if s \<noteq> [] then Some s else None)"

subsection \<open>Numbers\<close>

text \<open>
  A JavaScript number is not-a-number, an infinity or a finite value. Finite values are
  kept as exact rationals: the rounding of a decimal literal to the nearest binary64
  value is not part of the model. The handlers only test numbers for finiteness and
  sign, subtract them and round them to two decimals.
\<close>

datatype jsnum = NaN | PosInf | NegInf | Fin rat

definition isFinite :: "jsnum \<Rightarrow> bool" where
  \<comment> \<open>\<^verbatim>\<open>Number.isFinite\<close>\<close>
  "isFinite x = (case x of Fin _ \<Rightarrow> True | _ \<Rightarrow> False)"

definition ge_zero :: "jsnum \<Rightarrow> bool" where
  \<comment> \<open>\<^verbatim>\<open>x >= 0\<close>\<close>
  "ge_zero x = (case x of Fin a \<Rightarrow> 0 \<le> a | PosInf \<Rightarrow> True | _ \<Rightarrow> False)"

definition gt_zero :: "jsnum \<Rightarrow> bool" where
  \<comment> \<open>\<^verbatim>\<open>x > 0\<close>\<close>
  "gt_zero x = (case x of Fin a \<Rightarrow> 0 < a | PosInf \<Rightarrow> True | _ \<Rightarrow> False)"

fun js_minus :: "jsnum \<Rightarrow> jsnum \<Rightarrow> jsnum" where
  \<comment> \<open>\<^verbatim>\<open>x - y\<close>\<close>
  "js_minus (Fin a) (Fin b) = Fin (a - b)"
| "js_minus NaN _ = NaN"
| "js_minus _ NaN = NaN"
| "js_minus PosInf PosInf = NaN"
| "js_minus NegInf NegInf = NaN"
| "js_minus PosInf _ = PosInf"
| "js_minus NegInf _ = NegInf"
| "js_minus (Fin a) PosInf = NegInf"
| "js_minus (Fin a) NegInf = PosInf"

definition round2 :: "rat \<Rightarrow> rat" where
  \<comment> \<open>the nearest multiple of 1/100, a tie going away from zero\<close>
  "round2 a = sgn a * of_int \<lfloor>\<bar>a\<bar> * 100 + 1 / 2\<rfloor> / 100"

definition toFixed2 :: "jsnum \<Rightarrow> jsnum" where
  \<comment> \<open>\<^verbatim>\<open>Number(x.toFixed(2))\<close>; from \<open>10^21\<close> on \<^verbatim>\<open>toFixed\<close> prints the number itself\<close>
  "toFixed2 x = (case x of Fin a \<Rightarrow> if \<bar>a\<bar> < 10 ^ 21 then Fin (round2 a) else Fin a | _ \<Rightarrow> x)"

definition digit_val :: "char \<Rightarrow> nat" where
  "digit_val c = of_char c - 48"

definition digits_val :: "string \<Rightarrow> nat" where
  "digits_val ds = foldl (\<lambda>a c. 10 * a + digit_val c) 0 ds"

definition scale10 :: "rat \<Rightarrow> int \<Rightarrow> rat" where
  "scale10 m e = (if 0 \<le> e then m * 10 ^ nat e else m / 10 ^ nat (- e))"

definition parse_exponent :: "string \<Rightarrow> int" where
  \<comment> \<open>the exponent part at the head of the rest of a literal, 0 when there is none\<close>
  "parse_exponent r =
     (case r of
        [] \<Rightarrow> 0
      | c # r1 \<Rightarrow>
          if c = CHR ''e'' \<or> c = CHR ''E'' then
            (case r1 of
               [] \<Rightarrow> 0
             | s # r2 \<Rightarrow>
                 if s = CHR ''-'' then - int (digits_val (takeWhile is_digit r2))
                 else if s = CHR ''+'' then int (digits_val (takeWhile is_digit r2))
                 else int (digits_val (takeWhile is_digit r1)))
          else 0)"

definition to_double :: "bool \<Rightarrow> rat \<Rightarrow> jsnum" where
  \<comment> \<open>a magnitude that rounds beyond the largest binary64 value becomes an infinity, one
      that rounds below the smallest becomes zero\<close>
  "to_double neg m =
     (if 2 ^ 1024 - 2 ^ 970 \<le> m then (if neg then NegInf else PosInf)
      else if m \<le> 1 / 2 ^ 1075 then Fin 0
      else Fin (if neg then - m else m))"

definition parseFloat :: "string \<Rightarrow> jsnum" where
  \<comment> \<open>\<^verbatim>\<open>parseFloat\<close>: leading white space is skipped, then the longest prefix that is a
      decimal literal is read; \<^verbatim>\<open>NaN\<close> when there is none\<close>
  "parseFloat s =
     (let t = dropWhile is_space s;
          neg = (case t of c # _ \<Rightarrow> c = CHR ''-'' | [] \<Rightarrow> False);
          u = (case t of c # r \<Rightarrow> if c = CHR ''-'' \<or> c = CHR ''+'' then r else t | [] \<Rightarrow> t)
      in if prefix ''Infinity'' u then (if neg then NegInf else PosInf)
         else
           let ip = takeWhile is_digit u;
               r1 = dropWhile is_digit u;
               fp = (case r1 of c # r \<Rightarrow> if c = CHR ''.'' then takeWhile is_digit r else [] | [] \<Rightarrow> []);
               r2 = (case r1 of c # r \<Rightarrow> if c = CHR ''.'' then dropWhile is_digit r else r1 | [] \<Rightarrow> r1)
           in if ip = [] \<and> fp = [] then NaN
              else to_double neg
                     (scale10 (of_nat (digits_val (ip @ fp))) (parse_exponent r2 - int (length fp))))"

section \<open>Data model\<close>

subsection \<open>Rows, payloads and storage results\<close>

datatype jsval = JNull | JNum jsnum | JStr string

text \<open>An object literal sent to the store: its keys in the order written.\<close>

type_synonym payload = "(string \<times> jsval) list"

record db_error =
  message :: string
  code :: string

text \<open>
  What a storage call resolves to: \<^verbatim>\<open>{ data, error }\<close> with exactly one of the two set.
  A \<^verbatim>\<open>maybeSingle()\<close> query has an optional row as its data.
\<close>

datatype 'a db_result = Error db_error | Data 'a

record order_row =
  row_id :: string
  columns :: payload
  order_items :: "payload list"

subsection \<open>The provider's session\<close>

record metadata =
  customer_name :: "string option"
  customer_first_name :: "string option"
  customer_last_name :: "string option"
  customer_phone :: "string option"
  customer_email :: "string option"
  tip_percent :: "string option"
  tip_amount :: "string option"
  comments :: "string option"
  tax :: "string option"
  items :: "string option"

record customer_details =
  name :: "string option"
  phone :: "string option"
  email :: "string option"

record session =
  session_id :: string
  payment_status :: "string option"
  metadata :: "metadata option"
  customer_details :: "customer_details option"
  amount_total :: "int option"

record line_item =
  li_id :: string
  description :: "string option"
  unit_amount :: "int option"
  quantity :: "int option"

text \<open>An element of the cart that older checkouts stored as JSON in the metadata.\<close>

record addon =
  addon_name :: string
  addon_price :: jsnum

record cart_item =
  item_id :: string
  item_name :: string
  item_price :: jsnum
  item_quantity :: int
  selectedOptions :: "string list"
  selectedAddons :: "addon list"

record stripe_event =
  event_type :: string
  event_session :: session

subsection \<open>Configuration and collaborators\<close>

record config =
  STRIPE_SECRET_KEY :: "string option"
  STRIPE_WEBHOOK_SECRET :: "string option"
  SUPABASE_URL :: "string option"
  NEXT_PUBLIC_SUPABASE_URL :: "string option"
  SUPABASE_SERVICE_ROLE_KEY :: "string option"

text \<open>
  The collaborators are outside the repository. A handler run calls each call site at
  most once, so the collaborators are given by what each call site answers: one field
  per call site, and a theorem about every \<open>world\<close> covers every behaviour of the store
  and the provider. A provider call either throws (\<open>Inl\<close> the message) or returns.
  \<^item> \<open>existing_result\<close>: the existence check of the ensure handler;
  \<^item> \<open>retrieve_result\<close>: \<^verbatim>\<open>stripe.checkout.sessions.retrieve\<close> in the ensure handler;
  \<^item> \<open>lastOrderResult\<close>: the read of the greatest order number, in both handlers; its data
    is the \<^verbatim>\<open>order_number\<close> of the row found;
  \<^item> \<open>insert_full_result\<close>, \<open>insert_minimal_result\<close>: the order insert with the full and
    with the minimal payload, in both handlers;
  \<^item> \<open>retry_result\<close>: the query by session id after a failed insert, in the ensure handler;
  \<^item> \<open>listLineItems_result\<close>: \<^verbatim>\<open>stripe.checkout.sessions.listLineItems\<close>, in both handlers;
  \<^item> \<open>insert_items_error\<close>: the \<^verbatim>\<open>error\<close> of the insert of the items, in both handlers;
  \<^item> \<open>complete_result\<close>: the final read of the order with its items, in the ensure handler;
  \<^item> \<open>constructEvent_result\<close>: \<^verbatim>\<open>stripe.webhooks.constructEvent\<close> on the request of the webhook;
  \<^item> \<open>existingOrderResult\<close>, \<open>fallbackExistingOrderResult\<close>: the duplicate check of the
    webhook and its second query without the order number;
  \<^item> \<open>parsed_items\<close>: \<^verbatim>\<open>JSON.parse\<close> of the \<^verbatim>\<open>items\<close> metadata in the webhook, \<open>None\<close> when
    it throws or yields no array;
  \<^item> \<open>fetch_result\<close>, \<open>update_result\<close>: the existence probe and the update of the status
    transition.
\<close>

record world =
  existing_result :: "order_row option db_result"
  retrieve_result :: "string + session"
  lastOrderResult :: "int option option db_result"
  insert_full_result :: "order_row db_result"
  insert_minimal_result :: "order_row db_result"
  retry_result :: "order_row option db_result"
  listLineItems_result :: "string + line_item list"
  insert_items_error :: "db_error option"
  complete_result :: "order_row db_result"
  constructEvent_result :: "string + stripe_event"
  existingOrderResult :: "order_row db_result"
  fallbackExistingOrderResult :: "order_row option db_result"
  parsed_items :: "cart_item list option"
  fetch_result :: "order_row db_result"
  update_result :: "order_row db_result"

subsection \<open>Effects and responses\<close>

text \<open>
  Every call to a collaborator and every console line a handler produces, in order.
  The reads of \<^verbatim>\<open>orders\<close> are named after what they select and by what: the order with
  its items by session id or by id, \<^verbatim>\<open>id, order_number\<close> or \<^verbatim>\<open>id\<close> by session id, \<^verbatim>\<open>id\<close> by
  id, and the greatest \<^verbatim>\<open>order_number\<close>. The writes are \<open>Insert_order\<close>,
  \<open>Insert_order_items\<close> and \<open>Update_status\<close> (the id of the order, the new status).
  \<open>Console\<close> carries the level and the label of the line.

  A response is its status and its JSON body: \<^verbatim>\<open>{ error }\<close>, \<^verbatim>\<open>{ order, created, subtotal? }\<close>,
  \<^verbatim>\<open>{ order }\<close> or \<^verbatim>\<open>{ received: true, message? }\<close>.
\<close>

datatype effect =
    Select_order_by_session string
  | Select_id_number_by_session string
  | Select_id_by_session string
  | Select_last_order_number
  | Insert_order payload
  | Insert_order_items "payload list"
  | Select_order_by_id string
  | Select_id_by_id string
  | Update_status string string
  | Stripe_retrieve string
  | Stripe_list_line_items string
  | Console string string

datatype body =
    Error_body string
  | Order_body order_row bool "jsnum option"
  | Order_only order_row
  | Received "string option"

record response =
  status :: nat
  body :: body

type_synonym outcome = "response \<times> effect list"

definition after :: "effect list \<Rightarrow> outcome \<Rightarrow> outcome" where
  \<comment> \<open>the effects that happened before the rest of the run\<close>
  "after es out = (fst out, es @ snd out)"

definition is_write :: "effect \<Rightarrow> bool" where
  "is_write e = (case e of Insert_order _ \<Rightarrow> True | Insert_order_items _ \<Rightarrow> True
                 | Update_status _ _ \<Rightarrow> True | _ \<Rightarrow> False)"

section \<open>\<^verbatim>\<open>src/lib/supabase.ts\<close>\<close>

definition createServerClient :: "config \<Rightarrow> string + unit" where
  "createServerClient cfg =
     (let supabaseUrl = (if truthy (SUPABASE_URL cfg) then SUPABASE_URL cfg
                         else NEXT_PUBLIC_SUPABASE_URL cfg)
      in if \<not> truthy supabaseUrl then
           Inl ''Missing Supabase URL. Set SUPABASE_URL (recommended) or NEXT_PUBLIC_SUPABASE_URL.''
         else if \<not> truthy (SUPABASE_SERVICE_ROLE_KEY cfg) then
           Inl (''SUPABASE_SERVICE_ROLE_KEY is required for server-side operations. '' @
                ''Please add it to your environment variables.'')
         else Inr ())"

section \<open>Parts shared by the two order-creating handlers\<close>

definition isMissingColumnError :: "string option \<Rightarrow> bool" where
  "isMissingColumnError msg =
     (case msg of
        None \<Rightarrow> False
      | Some m \<Rightarrow>
          if m = [] then False
          else let normalized = toLowerCase m
               in (includes_str normalized ''column'' \<and> includes_str normalized ''does not exist'')
                  \<or> includes_str normalized ''could not find''
                  \<or> includes_str normalized ''schema cache'')"

definition meta_of :: "session \<Rightarrow> metadata" where
  \<comment> \<open>\<^verbatim>\<open>session.metadata || {}\<close>\<close>
  "meta_of s =
     (case metadata s of
        Some m \<Rightarrow> m
      | None \<Rightarrow> \<lparr>customer_name = None, customer_first_name = None, customer_last_name = None,
                 customer_phone = None, customer_email = None, tip_percent = None,
                 tip_amount = None, comments = None, tax = None, items = None\<rparr>)"

definition not_paid :: "session \<Rightarrow> bool" where
  \<comment> \<open>the guard both handlers put on \<^verbatim>\<open>session.payment_status\<close>\<close>
  "not_paid s =
     (truthy (payment_status s) \<and> payment_status s \<noteq> Some ''paid''
      \<and> payment_status s \<noteq> Some ''no_payment_required'')"

definition parsed_raw :: "string option \<Rightarrow> jsnum" where
  \<comment> \<open>\<^verbatim>\<open>v ? parseFloat(v) : 0\<close>\<close>
  "parsed_raw v = (case v of None \<Rightarrow> Fin 0 | Some s \<Rightarrow> if s \<noteq> [] then parseFloat s else Fin 0)"

definition finite_or_zero :: "jsnum \<Rightarrow> jsnum" where
  \<comment> \<open>\<^verbatim>\<open>Number.isFinite(x) ? x : 0\<close>\<close>
  "finite_or_zero x = (if isFinite x then x else Fin 0)"

definition finite_nonneg_or_zero :: "jsnum \<Rightarrow> jsnum" where
  \<comment> \<open>\<^verbatim>\<open>Number.isFinite(x) && x >= 0 ? x : 0\<close>\<close>
  "finite_nonneg_or_zero x = (if isFinite x \<and> ge_zero x then x else Fin 0)"

definition totalAmount :: "session \<Rightarrow> jsnum" where
  "totalAmount s =
     (let stripeTotalRaw = (case amount_total s of Some n \<Rightarrow> Fin (of_int n / 100) | None \<Rightarrow> Fin 0)
      in if isFinite stripeTotalRaw then toFixed2 stripeTotalRaw else Fin 0)"

definition next_from_last :: "int option option \<Rightarrow> int" where
  \<comment> \<open>\<^verbatim>\<open>data?.order_number ? data.order_number + 1 : 1000\<close>\<close>
  "next_from_last d = (case d of Some (Some n) \<Rightarrow> if n \<noteq> 0 then n + 1 else 1000 | _ \<Rightarrow> 1000)"

definition str_or_JNull :: "string \<Rightarrow> jsval" where
  \<comment> \<open>\<^verbatim>\<open>s || null\<close> as a payload value\<close>
  "str_or_JNull s = (if s \<noteq> [] then JStr s else JNull)"

definition num_or_JNull :: "jsnum \<Rightarrow> jsval" where
  \<comment> \<open>\<^verbatim>\<open>Number.isFinite(x) ? x : null\<close>\<close>
  "num_or_JNull x = (if isFinite x then JNum x else JNull)"

definition is_product_line :: "line_item \<Rightarrow> bool" where
  \<comment> \<open>the filter on the provider's line items\<close>
  "is_product_line li =
     (let name = toLowerCase (or_string (description li) [])
      in name \<noteq> ''sales tax'' \<and> name \<noteq> ''tip'')"

definition li_quantity :: "line_item \<Rightarrow> int" where
  "li_quantity li = (case quantity li of Some q \<Rightarrow> q | None \<Rightarrow> 1)"

definition li_price :: "line_item \<Rightarrow> jsnum" where
  "li_price li = Fin (of_int (case unit_amount li of Some u \<Rightarrow> u | None \<Rightarrow> 0) / 100)"

section \<open>\<^verbatim>\<open>src/app/api/orders/ensure/route.ts\<close>: the ensure handler\<close>

definition caught_ensure :: "string \<Rightarrow> outcome" where
  \<comment> \<open>the \<^verbatim>\<open>catch\<close> block of the handler\<close>
  "caught_ensure msg =
     (\<lparr>status = 500, body = Error_body (if msg \<noteq> [] then msg else ''Failed to ensure order'')\<rparr>,
      [Console ''error'' ''Error ensuring order:''])"

definition details_of :: "session \<Rightarrow> (customer_details \<Rightarrow> string option) \<Rightarrow> string option" where
  \<comment> \<open>\<^verbatim>\<open>session.customer_details?.field\<close>\<close>
  "details_of s field = (case customer_details s of None \<Rightarrow> None | Some d \<Rightarrow> field d)"

definition customerName_ensure :: "session \<Rightarrow> string" where
  "customerName_ensure s = trim (or_string (customer_name (meta_of s)) (or_string (details_of s name) []))"

definition customerPhone_ensure :: "session \<Rightarrow> string" where
  "customerPhone_ensure s = trim (or_string (customer_phone (meta_of s)) (or_string (details_of s phone) []))"

definition customerPhoneDigits_ensure :: "session \<Rightarrow> string" where
  "customerPhoneDigits_ensure s = replace_non_digits (customerPhone_ensure s)"

definition customerEmail_ensure :: "session \<Rightarrow> string" where
  "customerEmail_ensure s = trim (or_string (customer_email (meta_of s)) (or_string (details_of s email) []))"

definition taxAmount_ensure :: "session \<Rightarrow> jsnum" where
  "taxAmount_ensure s = finite_or_zero (parsed_raw (tax (meta_of s)))"

definition tipAmount_ensure :: "session \<Rightarrow> jsnum" where
  "tipAmount_ensure s = finite_or_zero (parsed_raw (tip_amount (meta_of s)))"

definition tipPercent_ensure :: "session \<Rightarrow> jsnum" where
  "tipPercent_ensure s = finite_or_zero (parsed_raw (tip_percent (meta_of s)))"

definition subtotalAmount_ensure :: "session \<Rightarrow> jsnum" where
  "subtotalAmount_ensure s =
     toFixed2 (js_minus (js_minus (totalAmount s) (taxAmount_ensure s)) (tipAmount_ensure s))"

definition allocate_ensure :: "world \<Rightarrow> bool \<times> int option \<times> effect list" where
  \<comment> \<open>the order number, best effort: \<open>(orderNumberColumnMissing, nextOrderNumber, effects)\<close>\<close>
  "allocate_ensure w =
     (case lastOrderResult w of
        Error e \<Rightarrow>
          if isMissingColumnError (Some (message e)) then (True, None, [Select_last_order_number])
          else (False, None,
                [Select_last_order_number, Console ''error'' ''Error getting last order number:''])
      | Data d \<Rightarrow> (False, Some (next_from_last d), [Select_last_order_number]))"

definition orderNumberPayload_ensure :: "bool \<Rightarrow> int option \<Rightarrow> payload" where
  "orderNumberPayload_ensure orderNumberColumnMissing nextOrderNumber =
     (case nextOrderNumber of
        None \<Rightarrow> []
      | Some n \<Rightarrow> if orderNumberColumnMissing then [] else [(''order_number'', JNum (Fin (of_int n)))])"

definition fullInsertPayload_ensure :: "string \<Rightarrow> session \<Rightarrow> payload \<Rightarrow> payload" where
  "fullInsertPayload_ensure sessionId s orderNumberPayload =
     [(''customer_name'', JStr (customerName_ensure s)),
      (''customer_first_name'', str_or_JNull (trim (or_string (customer_first_name (meta_of s)) []))),
      (''customer_last_name'', str_or_JNull (trim (or_string (customer_last_name (meta_of s)) []))),
      (''customer_phone'', JStr (customerPhoneDigits_ensure s)),
      (''customer_email'', str_or_JNull (customerEmail_ensure s)),
      (''tip_percent'', num_or_JNull (tipPercent_ensure s)),
      (''tip_amount'', num_or_JNull (tipAmount_ensure s)),
      (''comments'', str_or_JNull (slice0 400 (trim (or_string (comments (meta_of s)) [])))),
      (''total_amount'', JNum (totalAmount s)),
      (''tax_amount'', JNum (taxAmount_ensure s)),
      (''status'', JStr ''pending''),
      (''stripe_session_id'', JStr sessionId)] @ orderNumberPayload"

definition minimalInsertPayload_ensure :: "string \<Rightarrow> session \<Rightarrow> payload \<Rightarrow> payload" where
  "minimalInsertPayload_ensure sessionId s orderNumberPayload =
     [(''customer_name'', JStr (customerName_ensure s)),
      (''customer_phone'', JStr (customerPhoneDigits_ensure s)),
      (''customer_email'', str_or_JNull (customerEmail_ensure s)),
      (''total_amount'', JNum (totalAmount s)),
      (''tax_amount'', JNum (taxAmount_ensure s)),
      (''status'', JStr ''pending''),
      (''stripe_session_id'', JStr sessionId)] @ orderNumberPayload"

definition insert_order_ensure :: "world \<Rightarrow> payload \<Rightarrow> payload \<Rightarrow> order_row db_result \<times> effect list" where
  \<comment> \<open>the full insert and, on a missing-column error, the one retry with the minimal payload\<close>
  "insert_order_ensure w fullInsertPayload minimalInsertPayload =
     (case insert_full_result w of
        Data r \<Rightarrow> (Data r, [Insert_order fullInsertPayload])
      | Error e \<Rightarrow>
          if isMissingColumnError (Some (message e))
          then (insert_minimal_result w,
                [Insert_order fullInsertPayload, Insert_order minimalInsertPayload])
          else (Error e, [Insert_order fullInsertPayload]))"

definition orderItemsData_ensure :: "order_row \<Rightarrow> line_item list \<Rightarrow> payload list" where
  "orderItemsData_ensure order lineItems =
     map (\<lambda>li. [(''order_id'', JStr (row_id order)),
                (''menu_item_id'', JStr (li_id li)),
                (''menu_item_name'', JStr (or_string (description li) ''Item'')),
                (''quantity'', JNum (Fin (of_int (li_quantity li)))),
                (''price'', JNum (li_price li))])
         (filter is_product_line lineItems)"

definition ensure_items :: "world \<Rightarrow> string \<Rightarrow> jsnum \<Rightarrow> order_row \<Rightarrow> outcome" where
  \<comment> \<open>after the order row is inserted: the items, then the re-read for the response\<close>
  "ensure_items w sessionId subtotalAmount order =
     after [Stripe_list_line_items sessionId]
       (case listLineItems_result w of
          Inl msg \<Rightarrow> caught_ensure msg
        | Inr lineItems \<Rightarrow>
            let orderItemsData = orderItemsData_ensure order lineItems
            in after
                 (if orderItemsData \<noteq> [] then
                    Insert_order_items orderItemsData #
                    (case insert_items_error w of
                       Some itemsError \<Rightarrow> [Console ''error'' ''Error inserting order_items:'']
                     | None \<Rightarrow> [])
                  else [])
                 (after [Select_order_by_id (row_id order)]
                    (case complete_result w of
                       Error e \<Rightarrow> (\<lparr>status = 200, body = Order_body order True None\<rparr>, [])
                     | Data c \<Rightarrow>
                         (\<lparr>status = 200, body = Order_body c True (Some subtotalAmount)\<rparr>, []))))"

definition ensure_create :: "world \<Rightarrow> string \<Rightarrow> session \<Rightarrow> outcome" where
  \<comment> \<open>from the retrieved session on: guards, number, insert, race re-query\<close>
  "ensure_create w sessionId s =
     (if not_paid s then (\<lparr>status = 400, body = Error_body ''Session is not paid''\<rparr>, [])
      else if customerName_ensure s = [] \<or> customerPhoneDigits_ensure s = [] then
        (\<lparr>status = 400, body = Error_body ''Missing customer_name/customer_phone on session''\<rparr>, [])
      else if length (customerPhoneDigits_ensure s) < 10 then
        (\<lparr>status = 400, body = Error_body ''Invalid customer_phone on session''\<rparr>, [])
      else
        (case allocate_ensure w of
           (orderNumberColumnMissing, nextOrderNumber, alloc_effects) \<Rightarrow>
             let orderNumberPayload = orderNumberPayload_ensure orderNumberColumnMissing nextOrderNumber;
                 fullInsertPayload = fullInsertPayload_ensure sessionId s orderNumberPayload;
                 minimalInsertPayload = minimalInsertPayload_ensure sessionId s orderNumberPayload
             in (case insert_order_ensure w fullInsertPayload minimalInsertPayload of
                   (insertResult, insert_effects) \<Rightarrow>
                     after (alloc_effects @ insert_effects)
                       (case insertResult of
                          Error insert_error \<Rightarrow>
                            after [Select_order_by_session sessionId]
                              (case retry_result w of
                                 Data (Some found) \<Rightarrow>
                                   (\<lparr>status = 200, body = Order_body found False None\<rparr>, [])
                               | _ \<Rightarrow> caught_ensure (message insert_error))
                        | Data order \<Rightarrow>
                            ensure_items w sessionId (subtotalAmount_ensure s) order))))"

definition ensure_POST :: "config \<Rightarrow> world \<Rightarrow> string option \<Rightarrow> outcome" where
  \<comment> \<open>the argument is \<^verbatim>\<open>body.sessionId\<close> when the body parses and the field is a string\<close>
  "ensure_POST cfg w body_sessionId =
     (if \<not> truthy (STRIPE_SECRET_KEY cfg) then
        (\<lparr>status = 500, body = Error_body ''Stripe is not configured''\<rparr>, [])
      else
        let sessionId = (case body_sessionId of Some v \<Rightarrow> v | None \<Rightarrow> [])
        in if sessionId = [] then
             (\<lparr>status = 400, body = Error_body ''sessionId is required''\<rparr>, [])
           else
             (case createServerClient cfg of
                Inl msg \<Rightarrow> caught_ensure msg
              | Inr _ \<Rightarrow>
                  after [Select_order_by_session sessionId]
                    (case existing_result w of
                       Error e \<Rightarrow> caught_ensure (message e)
                     | Data (Some found) \<Rightarrow>
                         (\<lparr>status = 200, body = Order_body found False None\<rparr>, [])
                     | Data None \<Rightarrow>
                         after [Stripe_retrieve sessionId]
                           (case retrieve_result w of
                              Inl msg \<Rightarrow> caught_ensure msg
                            | Inr s \<Rightarrow> ensure_create w sessionId s))))"

section \<open>The webhook handler (\<^verbatim>\<open>src/unnamed/part_001\<close>)\<close>

fun split_on :: "char \<Rightarrow> string \<Rightarrow> string list" where
  \<comment> \<open>\<^verbatim>\<open>s.split(sep)\<close> for a one-character separator\<close>
  "split_on sep [] = [[]]"
| "split_on sep (c # cs) =
     (if c = sep then [] # split_on sep cs
      else (case split_on sep cs of
              [] \<Rightarrow> [[c]]
            | p # ps \<Rightarrow> (c # p) # ps))"

fun join_with :: "string \<Rightarrow> string list \<Rightarrow> string" where
  \<comment> \<open>\<^verbatim>\<open>parts.join(sep)\<close>\<close>
  "join_with sep [] = []"
| "join_with sep [p] = p"
| "join_with sep (p # q # ps) = p @ sep @ join_with sep (q # ps)"

definition caught_webhook :: outcome where
  \<comment> \<open>the \<^verbatim>\<open>catch\<close> block around the processing of a completed session\<close>
  "caught_webhook =
     (\<lparr>status = 500, body = Error_body ''Failed to process order''\<rparr>,
      [Console ''error'' ''Error processing webhook:''])"

definition nameParts :: "string \<Rightarrow> string list" where
  "nameParts customer_name_value = filter (\<lambda>p. p \<noteq> []) (split_on CHR '' '' customer_name_value)"

definition derivedFirstName :: "metadata \<Rightarrow> string" where
  "derivedFirstName m =
     (let full = or_string (customer_name m) []
      in or_string (customer_first_name m)
           (or_string (case nameParts full of [] \<Rightarrow> None | p # _ \<Rightarrow> Some p) full))"

definition derivedLastName :: "metadata \<Rightarrow> string option" where
  "derivedLastName m =
     (let full = or_string (customer_name m) []
      in or_null (or_string (customer_last_name m) (join_with '' '' (tl (nameParts full)))))"

definition cart_of_line_items :: "line_item list \<Rightarrow> cart_item list" where
  \<comment> \<open>the cart rebuilt from the provider's line items\<close>
  "cart_of_line_items lineItems =
     map (\<lambda>li. \<lparr>item_id = li_id li, item_name = or_string (description li) ''Item'',
                 item_price = li_price li, item_quantity = li_quantity li,
                 selectedOptions = [], selectedAddons = []\<rparr>)
         (filter is_product_line lineItems)"

definition probe_webhook :: "world \<Rightarrow> string \<Rightarrow> bool \<times> order_row option \<times> effect list" where
  \<comment> \<open>the duplicate check: \<open>(orderNumberColumnMissing, existingOrder, effects)\<close>\<close>
  "probe_webhook w sid =
     (case existingOrderResult w of
        Data r \<Rightarrow> (False, Some r, [Select_id_number_by_session sid])
      | Error e \<Rightarrow>
          if isMissingColumnError (Some (message e)) then
            (True,
             (case fallbackExistingOrderResult w of Data d \<Rightarrow> d | Error _ \<Rightarrow> None),
             [Select_id_number_by_session sid, Select_id_by_session sid])
          else if code e \<noteq> ''PGRST116'' then
            (False, None,
             [Select_id_number_by_session sid, Console ''error'' ''Error checking existing order:''])
          else (False, None, [Select_id_number_by_session sid]))"

definition allocate_webhook :: "world \<Rightarrow> bool \<Rightarrow> bool \<times> int option \<times> effect list" where
  \<comment> \<open>the next order number, read only when the column is not yet known to be missing\<close>
  "allocate_webhook w orderNumberColumnMissing =
     (if \<not> orderNumberColumnMissing then
        (case lastOrderResult w of
           Error e \<Rightarrow>
             if isMissingColumnError (Some (message e)) then (True, None, [Select_last_order_number])
             else (orderNumberColumnMissing, None,
                   [Select_last_order_number, Console ''error'' ''Error getting last order number:''])
         | Data d \<Rightarrow> (orderNumberColumnMissing, Some (next_from_last d), [Select_last_order_number]))
      else (orderNumberColumnMissing, None, []))"

definition taxAmount_webhook :: "metadata \<Rightarrow> jsnum" where
  "taxAmount_webhook m = finite_or_zero (parsed_raw (tax m))"

definition tipAmount_webhook :: "metadata \<Rightarrow> jsnum" where
  "tipAmount_webhook m = finite_nonneg_or_zero (parsed_raw (tip_amount m))"

definition tipPercent_webhook :: "metadata \<Rightarrow> jsnum" where
  "tipPercent_webhook m = finite_nonneg_or_zero (parsed_raw (tip_percent m))"

definition normalizedTipAmount :: "metadata \<Rightarrow> jsnum" where
  "normalizedTipAmount m = (if gt_zero (tipAmount_webhook m) then tipAmount_webhook m else Fin 0)"

definition subtotalAmount_webhook :: "session \<Rightarrow> jsnum" where
  \<comment> \<open>computed by the handler and used nowhere\<close>
  "subtotalAmount_webhook s =
     toFixed2 (js_minus (js_minus (totalAmount s) (taxAmount_webhook (meta_of s)))
                 (normalizedTipAmount (meta_of s)))"

definition normalizedCustomerPhone :: "metadata \<Rightarrow> string" where
  "normalizedCustomerPhone m = replace_non_digits (or_string (customer_phone m) [])"

definition fullInsertPayload_webhook :: "session \<Rightarrow> payload" where
  "fullInsertPayload_webhook s =
     (let m = meta_of s
      in [(''customer_name'', JStr (or_string (customer_name m) [])),
          (''customer_first_name'', JStr (derivedFirstName m)),
          (''customer_last_name'', (case derivedLastName m of Some l \<Rightarrow> JStr l | None \<Rightarrow> JNull)),
          (''customer_phone'', JStr (normalizedCustomerPhone m)),
          (''customer_email'', str_or_JNull (or_string (customer_email m) [])),
          (''tip_percent'', num_or_JNull (tipPercent_webhook m)),
          (''tip_amount'', num_or_JNull (normalizedTipAmount m)),
          (''comments'', (if truthy (comments m) then JStr (slice0 400 (or_string (comments m) []))
                          else JNull)),
          (''total_amount'', JNum (totalAmount s)),
          (''tax_amount'', JNum (taxAmount_webhook m)),
          (''status'', JStr ''pending''),
          (''stripe_session_id'', JStr (session_id s))])"

definition orderNumberPayload_webhook :: "bool \<Rightarrow> int option \<Rightarrow> payload" where
  \<comment> \<open>\<^verbatim>\<open>orderNumberColumnMissing || !nextOrderNumber ? {} : { order_number: nextOrderNumber }\<close>\<close>
  "orderNumberPayload_webhook orderNumberColumnMissing nextOrderNumber =
     (case nextOrderNumber of
        None \<Rightarrow> []
      | Some n \<Rightarrow>
          if orderNumberColumnMissing \<or> n = 0 then []
          else [(''order_number'', JNum (Fin (of_int n)))])"

definition minimalInsertPayload_webhook :: "session \<Rightarrow> payload" where
  "minimalInsertPayload_webhook s =
     (let m = meta_of s
      in [(''customer_name'', JStr (or_string (customer_name m) [])),
          (''customer_phone'', JStr (normalizedCustomerPhone m)),
          (''customer_email'', str_or_JNull (or_string (customer_email m) [])),
          (''total_amount'', JNum (totalAmount s)),
          (''tax_amount'', JNum (taxAmount_webhook m)),
          (''status'', JStr ''pending''),
          (''stripe_session_id'', JStr (session_id s))])"

definition with_number :: "bool \<Rightarrow> int option \<Rightarrow> payload \<Rightarrow> payload" where
  \<comment> \<open>\<^verbatim>\<open>insertWithNumber ? { ...payload, ...orderNumberPayload } : payload\<close>\<close>
  "with_number orderNumberColumnMissing nextOrderNumber p =
     (let insertWithNumber = (\<not> orderNumberColumnMissing \<and> nextOrderNumber \<noteq> None)
      in if insertWithNumber
         then p @ orderNumberPayload_webhook orderNumberColumnMissing nextOrderNumber
         else p)"

definition insert_order_webhook :: "world \<Rightarrow> payload \<Rightarrow> payload \<Rightarrow> order_row db_result \<times> effect list" where
  \<comment> \<open>the full insert and, on a missing-column error, the one retry with the minimal payload\<close>
  "insert_order_webhook w fullPayload minimalPayload =
     (case insert_full_result w of
        Data r \<Rightarrow> (Data r, [Insert_order fullPayload])
      | Error e \<Rightarrow>
          if isMissingColumnError (Some (message e))
          then (insert_minimal_result w,
                [Insert_order fullPayload,
                 Console ''warn'' ''Webhook order insert retrying without new columns:'',
                 Insert_order minimalPayload])
          else (Error e, [Insert_order fullPayload]))"

definition item_rows :: "order_row \<Rightarrow> cart_item \<Rightarrow> payload list" where
  \<comment> \<open>the rows of one cart item: the item, then one row per addon\<close>
  "item_rows order item =
     (let itemName = item_name item @
                       (if selectedOptions item \<noteq> []
                        then '' ('' @ join_with '', '' (selectedOptions item) @ '')'' else [])
      in [(''order_id'', JStr (row_id order)),
          (''menu_item_id'', JStr (item_id item)),
          (''menu_item_name'', JStr itemName),
          (''quantity'', JNum (Fin (of_int (item_quantity item)))),
          (''price'', JNum (item_price item))] #
         map (\<lambda>a. [(''order_id'', JStr (row_id order)),
                    (''menu_item_id'', JStr (item_id item @ ''-addon-'' @ addon_name a)),
                    (''menu_item_name'', JStr (''+ '' @ addon_name a)),
                    (''quantity'', JNum (Fin (of_int (item_quantity item)))),
                    (''price'', JNum (addon_price a))])
             (selectedAddons item))"

definition orderItemsData_webhook :: "order_row \<Rightarrow> cart_item list \<Rightarrow> payload list" where
  "orderItemsData_webhook order orderItems = concat (map (item_rows order) orderItems)"

definition webhook_create :: "world \<Rightarrow> session \<Rightarrow> cart_item list \<Rightarrow> outcome" where
  \<comment> \<open>from the duplicate check on\<close>
  "webhook_create w s orderItems =
     (case probe_webhook w (session_id s) of
        (missing0, existingOrder, probe_effects) \<Rightarrow>
          after probe_effects
            (case existingOrder of
               Some _ \<Rightarrow>
                 (\<lparr>status = 200, body = Received (Some ''Order already processed'')\<rparr>,
                  [Console ''log'' ''Order already exists for session:''])
             | None \<Rightarrow>
                 (case allocate_webhook w missing0 of
                    (orderNumberColumnMissing, nextOrderNumber, alloc_effects) \<Rightarrow>
                      (case insert_order_webhook w
                              (with_number orderNumberColumnMissing nextOrderNumber
                                 (fullInsertPayload_webhook s))
                              (with_number orderNumberColumnMissing nextOrderNumber
                                 (minimalInsertPayload_webhook s)) of
                         (insertResult, insert_effects) \<Rightarrow>
                           after (alloc_effects @ insert_effects)
                             (case insertResult of
                                Error orderError \<Rightarrow> caught_webhook
                              | Data order \<Rightarrow>
                                  after [Insert_order_items (orderItemsData_webhook order orderItems)]
                                    (case insert_items_error w of
                                       Some itemsError \<Rightarrow> caught_webhook
                                     | None \<Rightarrow>
                                         (\<lparr>status = 200, body = Received None\<rparr>,
                                          [Console ''log'' ''Order created successfully:''])))))))"

definition webhook_completed :: "config \<Rightarrow> world \<Rightarrow> session \<Rightarrow> outcome" where
  \<comment> \<open>the branch for a \<^verbatim>\<open>checkout.session.completed\<close> event\<close>
  "webhook_completed cfg w s =
     (if not_paid s then
        (\<lparr>status = 200, body = Received None\<rparr>,
         [Console ''warn'' ''Ignoring checkout.session.completed with non-paid status:''])
      else
        (case createServerClient cfg of
           Inl msg \<Rightarrow> caught_webhook
         | Inr _ \<Rightarrow>
             let m = meta_of s
             in if \<not> truthy (customer_name m) \<or> \<not> truthy (customer_phone m) then caught_webhook
                else if length (normalizedCustomerPhone m) < 10 then caught_webhook
                else
                  let orderItems = (if truthy (items m)
                                    then (case parsed_items w of Some xs \<Rightarrow> xs | None \<Rightarrow> [])
                                    else [])
                  in if orderItems = [] then
                       after [Stripe_list_line_items (session_id s)]
                         (case listLineItems_result w of
                            Inl msg \<Rightarrow> caught_webhook
                          | Inr lineItems \<Rightarrow> webhook_create w s (cart_of_line_items lineItems))
                     else webhook_create w s orderItems))"

definition webhook_POST :: "config \<Rightarrow> world \<Rightarrow> string option \<Rightarrow> outcome" where
  \<comment> \<open>the argument is the \<^verbatim>\<open>stripe-signature\<close> header; the signed body is read by
      \<^verbatim>\<open>constructEvent\<close> only\<close>
  "webhook_POST cfg w signature =
     (if \<not> truthy (STRIPE_SECRET_KEY cfg) \<or> \<not> truthy (STRIPE_WEBHOOK_SECRET cfg) then
        (\<lparr>status = 500, body = Error_body ''Webhook not configured''\<rparr>,
         [Console ''error'' ''Stripe webhook not configured''])
      else if \<not> truthy signature then
        (\<lparr>status = 400, body = Error_body ''Missing signature''\<rparr>, [])
      else
        (case constructEvent_result w of
           Inl msg \<Rightarrow>
             (\<lparr>status = 400, body = Error_body ''Invalid signature''\<rparr>,
              [Console ''error'' ''Webhook signature verification failed:''])
         | Inr event \<Rightarrow>
             if event_type event = ''checkout.session.completed''
             then webhook_completed cfg w (event_session event)
             else (\<lparr>status = 200, body = Received None\<rparr>, [])))"

section \<open>\<^verbatim>\<open>src/app/api/orders/[id]/route.ts\<close>: the status transition\<close>

definition VALID_STATUSES :: "string list" where
  "VALID_STATUSES = [''pending'', ''preparing'', ''ready'', ''completed'']"

definition caught_patch :: "string \<Rightarrow> outcome" where
  "caught_patch msg =
     (\<lparr>status = 500, body = Error_body (if msg \<noteq> [] then msg else ''Failed to update order'')\<rparr>,
      [Console ''error'' ''Error updating order:''])"

text \<open>
  The request body either fails to parse (\<open>Inl\<close> the message of the exception) or has a
  \<^verbatim>\<open>status\<close> field that is a string, or none.
\<close>

definition PATCH :: "config \<Rightarrow> world \<Rightarrow> string \<Rightarrow> string + string option \<Rightarrow> outcome" where
  "PATCH cfg w params_id request_json =
     (case request_json of
        Inl msg \<Rightarrow> caught_patch msg
      | Inr status_field \<Rightarrow>
          if \<not> truthy status_field \<or> or_string status_field [] \<notin> set VALID_STATUSES then
            (\<lparr>status = 400,
              body = Error_body (''Invalid status. Must be one of: '' @ join_with '', '' VALID_STATUSES)\<rparr>,
             [])
          else
            (case createServerClient cfg of
               Inl msg \<Rightarrow> caught_patch msg
             | Inr _ \<Rightarrow>
                 after [Select_id_by_id params_id]
                   (case fetch_result w of
                      Error fetchError \<Rightarrow> (\<lparr>status = 404, body = Error_body ''Order not found''\<rparr>, [])
                    | Data existingOrder \<Rightarrow>
                        after [Update_status params_id (or_string status_field [])]
                          (case update_result w of
                             Error e \<Rightarrow> caught_patch (message e)
                           | Data updated \<Rightarrow> (\<lparr>status = 200, body = Order_only updated\<rparr>, [])))))"

section \<open>Notions used to state the properties\<close>





definition existingOrder :: "world \<Rightarrow> order_row option" where
  \<comment> \<open>what the duplicate check of the webhook ends with\<close>
  "existingOrder w =
     (case existingOrderResult w of
        Data r \<Rightarrow> Some r
      | Error e \<Rightarrow>
          if isMissingColumnError (Some (message e))
          then (case fallbackExistingOrderResult w of Data d \<Rightarrow> d | Error _ \<Rightarrow> None)
          else None)"

definition order_inserts :: "effect list \<Rightarrow> payload list" where
  \<comment> \<open>the payloads of the order inserts of a run, in order\<close>
  "order_inserts es = concat (map (\<lambda>e. case e of Insert_order p \<Rightarrow> [p] | _ \<Rightarrow> []) es)"

definition is_storage_call :: "effect \<Rightarrow> bool" where
  \<comment> \<open>a call to the store, as opposed to a call to the provider or a console line\<close>
  "is_storage_call e =
     (case e of
        Console _ _ \<Rightarrow> False
      | Stripe_retrieve _ \<Rightarrow> False
      | Stripe_list_line_items _ \<Rightarrow> False
      | _ \<Rightarrow> True)"

definition storage_calls :: "effect list \<Rightarrow> effect list" where
  "storage_calls es = filter is_storage_call es"

definition creates_nothing :: "effect \<Rightarrow> bool" where
  \<comment> \<open>neither a write nor the read of the last order number\<close>
  "creates_nothing e = (\<not> is_write e \<and> e \<noteq> Select_last_order_number)"

definition full_keys :: "string list" where
  "full_keys = [''customer_name'', ''customer_first_name'', ''customer_last_name'',
     ''customer_phone'', ''customer_email'', ''tip_percent'', ''tip_amount'', ''comments'',
     ''total_amount'', ''tax_amount'', ''status'', ''stripe_session_id'']"

definition minimal_keys :: "string list" where
  "minimal_keys = [''customer_name'', ''customer_phone'', ''customer_email'',
     ''total_amount'', ''tax_amount'', ''status'', ''stripe_session_id'']"


definition ensure_reaches :: "config \<Rightarrow> world \<Rightarrow> string \<Rightarrow> session \<Rightarrow> bool" where
  \<comment> \<open>the ensure run for \<open>sid\<close> finds no order, retrieves the session \<open>s\<close>, which is paid, and
      accepts its name and phone\<close>
  "ensure_reaches cfg w sid s =
     (truthy (STRIPE_SECRET_KEY cfg) \<and> createServerClient cfg = Inr () \<and> sid \<noteq> [] \<and>
      existing_result w = Data None \<and> retrieve_result w = Inr s \<and> \<not> not_paid s \<and>
      customerName_ensure s \<noteq> [] \<and> 10 \<le> length (customerPhoneDigits_ensure s))"

definition orderItems_webhook :: "world \<Rightarrow> session \<Rightarrow> cart_item list option" where
  \<comment> \<open>the cart the webhook works with: the one parsed from the metadata or, when that is
      empty, the one rebuilt from the line items; none when listing the line items throws\<close>
  "orderItems_webhook w s =
     (let orderItems = (if truthy (items (meta_of s))
                        then (case parsed_items w of Some xs \<Rightarrow> xs | None \<Rightarrow> [])
                        else [])
      in if orderItems = []
         then (case listLineItems_result w of
                 Inl _ \<Rightarrow> None
               | Inr lineItems \<Rightarrow> Some (cart_of_line_items lineItems))
         else Some orderItems)"

definition webhook_reaches :: "config \<Rightarrow> world \<Rightarrow> string option \<Rightarrow> session \<Rightarrow> cart_item list \<Rightarrow> bool" where
  \<comment> \<open>the webhook run verifies a completed-session event for the session \<open>s\<close>, which is paid,
      accepts its name and phone, and gets to its duplicate check with the cart \<open>cart\<close>\<close>
  "webhook_reaches cfg w signature s cart =
     (truthy (STRIPE_SECRET_KEY cfg) \<and> truthy (STRIPE_WEBHOOK_SECRET cfg) \<and> truthy signature \<and>
      constructEvent_result w = Inr \<lparr>event_type = ''checkout.session.completed'', event_session = s\<rparr> \<and>
      \<not> not_paid s \<and> createServerClient cfg = Inr () \<and> truthy (customer_name (meta_of s)) \<and>
      10 \<le> length (normalizedCustomerPhone (meta_of s)) \<and> orderItems_webhook w s = Some cart)"

section \<open>Concrete configurations, sessions and worlds\<close>

text \<open>The inputs at which the theorems below are instantiated.\<close>

definition cfg_ok :: config where
  "cfg_ok = \<lparr>STRIPE_SECRET_KEY = Some ''sk_test_1'', STRIPE_WEBHOOK_SECRET = Some ''whsec_1'',
              SUPABASE_URL = Some ''https://db.example'', NEXT_PUBLIC_SUPABASE_URL = None,
              SUPABASE_SERVICE_ROLE_KEY = Some ''service_key''\<rparr>"

definition sig_ok :: "string option" where
  "sig_ok = Some ''t=1,v1=5257a869''"

definition md_jo :: metadata where
  "md_jo = \<lparr>customer_name = Some ''Jo Lee'', customer_first_name = None, customer_last_name = None,
            customer_phone = Some ''555-111-2222'', customer_email = None, tip_percent = None,
            tip_amount = None, comments = None, tax = Some ''1.50'', items = None\<rparr>"

definition s_paid :: session where
  "s_paid = \<lparr>session_id = ''sess_123'', payment_status = Some ''paid'', metadata = Some md_jo,
             customer_details = None, amount_total = Some 2150\<rparr>"

definition s_unpaid :: session where
  "s_unpaid = \<lparr>session_id = ''sess_123'', payment_status = Some ''unpaid'', metadata = Some md_jo,
               customer_details = None, amount_total = Some 2150\<rparr>"

definition s_negative_tax :: session where
  "s_negative_tax =
     \<lparr>session_id = ''sess_123'', payment_status = Some ''paid'',
      metadata = Some (md_jo\<lparr>tax := Some ''-5'', tip_amount := Some ''-2'', tip_percent := Some ''abc''\<rparr>),
      customer_details = None, amount_total = Some 2150\<rparr>"

definition s_short_phone :: session where
  "s_short_phone =
     \<lparr>session_id = ''sess_123'', payment_status = Some ''paid'',
      metadata = Some (md_jo\<lparr>customer_phone := Some ''555-1234''\<rparr>),
      customer_details = None, amount_total = Some 2150\<rparr>"

definition completed_event :: "session \<Rightarrow> stripe_event" where
  "completed_event s = \<lparr>event_type = ''checkout.session.completed'', event_session = s\<rparr>"

definition row_new :: order_row where
  "row_new = \<lparr>row_id = ''order_1'', columns = [(''status'', JStr ''pending'')], order_items = []\<rparr>"

definition row_complete :: order_row where
  "row_complete =
     \<lparr>row_id = ''order_1'', columns = [(''status'', JStr ''pending'')],
      order_items = [[(''menu_item_name'', JStr ''Chicken Kabob'')]]\<rparr>"

definition row_completed :: order_row where
  "row_completed = \<lparr>row_id = ''order_1'', columns = [(''status'', JStr ''completed'')], order_items = []\<rparr>"

definition row_pending :: order_row where
  "row_pending = \<lparr>row_id = ''order_1'', columns = [(''status'', JStr ''pending'')], order_items = []\<rparr>"

definition err_no_rows :: db_error where
  "err_no_rows = \<lparr>message = ''JSON object requested, multiple (or no) rows returned'',
                  code = ''PGRST116''\<rparr>"

definition err_schema_cache :: db_error where
  "err_schema_cache =
     \<lparr>message = ''Could not find the tip_percent column of orders in the schema cache'',
      code = ''PGRST204''\<rparr>"

definition err_no_number_column :: db_error where
  "err_no_number_column = \<lparr>message = ''column orders.order_number does not exist'', code = ''42703''\<rparr>"

definition err_duplicate :: db_error where
  "err_duplicate =
     \<lparr>message = ''duplicate key value violates unique constraint orders_stripe_session_id_key'',
      code = ''23505''\<rparr>"

definition err_timeout :: db_error where
  "err_timeout = \<lparr>message = ''upstream request timeout'', code = ''504''\<rparr>"

definition kabob :: line_item where
  "kabob = \<lparr>li_id = ''li_1'', description = Some ''Chicken Kabob'', unit_amount = Some 2000,
            quantity = Some 1\<rparr>"

definition sales_tax_line :: line_item where
  "sales_tax_line = \<lparr>li_id = ''li_2'', description = Some ''Sales Tax'', unit_amount = Some 150,
                     quantity = Some 1\<rparr>"

text \<open>
  \<open>w_fresh\<close>: a store without an order for the session, every call succeeding. The other
  worlds differ from it in the answers named.
\<close>

definition w_fresh :: world where
  "w_fresh =
     \<lparr>existing_result = Data None,
      retrieve_result = Inr s_paid,
      lastOrderResult = Data None,
      insert_full_result = Data row_new,
      insert_minimal_result = Data row_new,
      retry_result = Data None,
      listLineItems_result = Inr [kabob, sales_tax_line],
      insert_items_error = None,
      complete_result = Data row_complete,
      constructEvent_result = Inr (completed_event s_paid),
      existingOrderResult = Error err_no_rows,
      fallbackExistingOrderResult = Data None,
      parsed_items = None,
      fetch_result = Data row_completed,
      update_result = Data row_pending\<rparr>"

definition w_unpaid :: world where
  \<comment> \<open>the session is not paid\<close>
  "w_unpaid = w_fresh\<lparr>retrieve_result := Inr s_unpaid,
      constructEvent_result := Inr (completed_event s_unpaid)\<rparr>"

definition w_existing :: world where
  \<comment> \<open>the order of the session is already stored\<close>
  "w_existing = w_fresh\<lparr>existing_result := Data (Some row_complete),
      existingOrderResult := Data row_new\<rparr>"

definition w_old_schema :: world where
  \<comment> \<open>the store lacks the newer columns of the full payload\<close>
  "w_old_schema = w_fresh\<lparr>insert_full_result := Error err_schema_cache\<rparr>"

definition w_lost_race :: world where
  \<comment> \<open>a concurrent caller inserted the order after the duplicate check\<close>
  "w_lost_race = w_fresh\<lparr>insert_full_result := Error err_duplicate,
      retry_result := Data (Some row_complete)\<rparr>"

definition w_dead_store :: world where
  \<comment> \<open>the insert fails and the order is not there either\<close>
  "w_dead_store = w_fresh\<lparr>insert_full_result := Error err_timeout\<rparr>"

definition w_items_fail :: world where
  \<comment> \<open>the order is inserted and the insert of its items fails\<close>
  "w_items_fail = w_fresh\<lparr>insert_items_error := Some err_timeout\<rparr>"

definition w_no_number_column :: world where
  \<comment> \<open>the store has no order-number column\<close>
  "w_no_number_column = w_fresh\<lparr>lastOrderResult := Error err_no_number_column\<rparr>"

definition w_max_zero :: world where
  \<comment> \<open>the read of the maximum returns the number 0\<close>
  "w_max_zero = w_fresh\<lparr>lastOrderResult := Data (Some (Some 0))\<rparr>"

definition w_max_1041 :: world where
  \<comment> \<open>the read of the maximum returns the number 1041\<close>
  "w_max_1041 = w_fresh\<lparr>lastOrderResult := Data (Some (Some 1041))\<rparr>"

definition w_negative_tax :: world where
  \<comment> \<open>the metadata carry a negative tax\<close>
  "w_negative_tax = w_fresh\<lparr>retrieve_result := Inr s_negative_tax,
      constructEvent_result := Inr (completed_event s_negative_tax)\<rparr>"

definition w_short_phone :: world where
  \<comment> \<open>the metadata carry a seven-digit phone number\<close>
  "w_short_phone = w_fresh\<lparr>retrieve_result := Inr s_short_phone,
      constructEvent_result := Inr (completed_event s_short_phone)\<rparr>"

section \<open>Basic facts\<close>

lemma snd_after [simp]: "snd (after es out) = es @ snd out"
  by (simp add: after_def)

lemma fst_after [simp]: "fst (after es out) = fst out"
  by (simp add: after_def)

lemma ensure_POST_reaches_create:
  assumes "truthy (STRIPE_SECRET_KEY cfg)" "createServerClient cfg = Inr ()" "sid \<noteq> []"
    and "existing_result w = Data None" "retrieve_result w = Inr s"
  shows "ensure_POST cfg w (Some sid) =
         after [Select_order_by_session sid, Stripe_retrieve sid] (ensure_create w sid s)"
  using assms by (simp add: ensure_POST_def after_def)

lemma webhook_POST_completed:
  assumes "truthy (STRIPE_SECRET_KEY cfg)" "truthy (STRIPE_WEBHOOK_SECRET cfg)" "truthy signature"
    and "constructEvent_result w = Inr ev" "event_type ev = ''checkout.session.completed''"
  shows "webhook_POST cfg w signature = webhook_completed cfg w (event_session ev)"
  using assms by (simp add: webhook_POST_def)

subsection \<open>The order inserts of a run\<close>



lemma order_inserts_append [simp]:
  "order_inserts (xs @ ys) = order_inserts xs @ order_inserts ys"
  by (simp add: order_inserts_def)

lemma order_inserts_simps [simp]:
  "order_inserts [] = []"
  "order_inserts (Insert_order p # es) = p # order_inserts es"
  "order_inserts (Select_order_by_session a # es) = order_inserts es"
  "order_inserts (Select_id_number_by_session a # es) = order_inserts es"
  "order_inserts (Select_id_by_session a # es) = order_inserts es"
  "order_inserts (Select_last_order_number # es) = order_inserts es"
  "order_inserts (Insert_order_items q # es) = order_inserts es"
  "order_inserts (Select_order_by_id a # es) = order_inserts es"
  "order_inserts (Select_id_by_id a # es) = order_inserts es"
  "order_inserts (Update_status a c # es) = order_inserts es"
  "order_inserts (Stripe_retrieve a # es) = order_inserts es"
  "order_inserts (Stripe_list_line_items a # es) = order_inserts es"
  "order_inserts (Console a c # es) = order_inserts es"
  by (simp_all add: order_inserts_def)

lemma order_inserts_caught_ensure [simp]: "order_inserts (snd (caught_ensure m)) = []"
  by (simp add: caught_ensure_def)

lemma order_inserts_caught_webhook [simp]: "order_inserts (snd caught_webhook) = []"
  by (simp add: caught_webhook_def)

lemma order_inserts_ensure_items [simp]:
  "order_inserts (snd (ensure_items w sid sub ord)) = []"
  by (simp add: ensure_items_def Let_def split: sum.splits option.splits db_result.splits)











subsection \<open>The two insert payloads\<close>


lemma keys_webhook:
  "map fst (fullInsertPayload_webhook s) = full_keys"
  "map fst (minimalInsertPayload_webhook s) = minimal_keys"
  by (simp_all add: fullInsertPayload_webhook_def minimalInsertPayload_webhook_def
      full_keys_def minimal_keys_def Let_def)









subsection \<open>The fields of the concrete worlds\<close>

lemma w_fresh_fields [simp]:
  "existing_result w_fresh = Data None"
  "retrieve_result w_fresh = Inr s_paid"
  "lastOrderResult w_fresh = Data None"
  "insert_full_result w_fresh = Data row_new"
  "insert_minimal_result w_fresh = Data row_new"
  "retry_result w_fresh = Data None"
  "listLineItems_result w_fresh = Inr [kabob, sales_tax_line]"
  "insert_items_error w_fresh = None"
  "complete_result w_fresh = Data row_complete"
  "constructEvent_result w_fresh = Inr (completed_event s_paid)"
  "existingOrderResult w_fresh = Error err_no_rows"
  "fallbackExistingOrderResult w_fresh = Data None"
  "parsed_items w_fresh = None"
  "fetch_result w_fresh = Data row_completed"
  "update_result w_fresh = Data row_pending"
  by (simp_all add: w_fresh_def)

lemma w_unpaid_fields [simp]:
  "existing_result w_unpaid = Data None"
  "retrieve_result w_unpaid = Inr s_unpaid"
  "lastOrderResult w_unpaid = Data None"
  "insert_full_result w_unpaid = Data row_new"
  "insert_minimal_result w_unpaid = Data row_new"
  "retry_result w_unpaid = Data None"
  "listLineItems_result w_unpaid = Inr [kabob, sales_tax_line]"
  "insert_items_error w_unpaid = None"
  "complete_result w_unpaid = Data row_complete"
  "constructEvent_result w_unpaid = Inr (completed_event s_unpaid)"
  "existingOrderResult w_unpaid = Error err_no_rows"
  "fallbackExistingOrderResult w_unpaid = Data None"
  "parsed_items w_unpaid = None"
  "fetch_result w_unpaid = Data row_completed"
  "update_result w_unpaid = Data row_pending"
  by (simp_all add: w_unpaid_def)

lemma w_existing_fields [simp]:
  "existing_result w_existing = Data (Some row_complete)"
  "retrieve_result w_existing = Inr s_paid"
  "lastOrderResult w_existing = Data None"
  "insert_full_result w_existing = Data row_new"
  "insert_minimal_result w_existing = Data row_new"
  "retry_result w_existing = Data None"
  "listLineItems_result w_existing = Inr [kabob, sales_tax_line]"
  "insert_items_error w_existing = None"
  "complete_result w_existing = Data row_complete"
  "constructEvent_result w_existing = Inr (completed_event s_paid)"
  "existingOrderResult w_existing = Data row_new"
  "fallbackExistingOrderResult w_existing = Data None"
  "parsed_items w_existing = None"
  "fetch_result w_existing = Data row_completed"
  "update_result w_existing = Data row_pending"
  by (simp_all add: w_existing_def)

lemma w_old_schema_fields [simp]:
  "existing_result w_old_schema = Data None"
  "retrieve_result w_old_schema = Inr s_paid"
  "lastOrderResult w_old_schema = Data None"
  "insert_full_result w_old_schema = Error err_schema_cache"
  "insert_minimal_result w_old_schema = Data row_new"
  "retry_result w_old_schema = Data None"
  "listLineItems_result w_old_schema = Inr [kabob, sales_tax_line]"
  "insert_items_error w_old_schema = None"
  "complete_result w_old_schema = Data row_complete"
  "constructEvent_result w_old_schema = Inr (completed_event s_paid)"
  "existingOrderResult w_old_schema = Error err_no_rows"
  "fallbackExistingOrderResult w_old_schema = Data None"
  "parsed_items w_old_schema = None"
  "fetch_result w_old_schema = Data row_completed"
  "update_result w_old_schema = Data row_pending"
  by (simp_all add: w_old_schema_def)

lemma w_lost_race_fields [simp]:
  "existing_result w_lost_race = Data None"
  "retrieve_result w_lost_race = Inr s_paid"
  "lastOrderResult w_lost_race = Data None"
  "insert_full_result w_lost_race = Error err_duplicate"
  "insert_minimal_result w_lost_race = Data row_new"
  "retry_result w_lost_race = Data (Some row_complete)"
  "listLineItems_result w_lost_race = Inr [kabob, sales_tax_line]"
  "insert_items_error w_lost_race = None"
  "complete_result w_lost_race = Data row_complete"
  "constructEvent_result w_lost_race = Inr (completed_event s_paid)"
  "existingOrderResult w_lost_race = Error err_no_rows"
  "fallbackExistingOrderResult w_lost_race = Data None"
  "parsed_items w_lost_race = None"
  "fetch_result w_lost_race = Data row_completed"
  "update_result w_lost_race = Data row_pending"
  by (simp_all add: w_lost_race_def)

lemma w_dead_store_fields [simp]:
  "existing_result w_dead_store = Data None"
  "retrieve_result w_dead_store = Inr s_paid"
  "lastOrderResult w_dead_store = Data None"
  "insert_full_result w_dead_store = Error err_timeout"
  "insert_minimal_result w_dead_store = Data row_new"
  "retry_result w_dead_store = Data None"
  "listLineItems_result w_dead_store = Inr [kabob, sales_tax_line]"
  "insert_items_error w_dead_store = None"
  "complete_result w_dead_store = Data row_complete"
  "constructEvent_result w_dead_store = Inr (completed_event s_paid)"
  "existingOrderResult w_dead_store = Error err_no_rows"
  "fallbackExistingOrderResult w_dead_store = Data None"
  "parsed_items w_dead_store = None"
  "fetch_result w_dead_store = Data row_completed"
  "update_result w_dead_store = Data row_pending"
  by (simp_all add: w_dead_store_def)

lemma w_items_fail_fields [simp]:
  "existing_result w_items_fail = Data None"
  "retrieve_result w_items_fail = Inr s_paid"
  "lastOrderResult w_items_fail = Data None"
  "insert_full_result w_items_fail = Data row_new"
  "insert_minimal_result w_items_fail = Data row_new"
  "retry_result w_items_fail = Data None"
  "listLineItems_result w_items_fail = Inr [kabob, sales_tax_line]"
  "insert_items_error w_items_fail = Some err_timeout"
  "complete_result w_items_fail = Data row_complete"
  "constructEvent_result w_items_fail = Inr (completed_event s_paid)"
  "existingOrderResult w_items_fail = Error err_no_rows"
  "fallbackExistingOrderResult w_items_fail = Data None"
  "parsed_items w_items_fail = None"
  "fetch_result w_items_fail = Data row_completed"
  "update_result w_items_fail = Data row_pending"
  by (simp_all add: w_items_fail_def)

lemma w_no_number_column_fields [simp]:
  "existing_result w_no_number_column = Data None"
  "retrieve_result w_no_number_column = Inr s_paid"
  "lastOrderResult w_no_number_column = Error err_no_number_column"
  "insert_full_result w_no_number_column = Data row_new"
  "insert_minimal_result w_no_number_column = Data row_new"
  "retry_result w_no_number_column = Data None"
  "listLineItems_result w_no_number_column = Inr [kabob, sales_tax_line]"
  "insert_items_error w_no_number_column = None"
  "complete_result w_no_number_column = Data row_complete"
  "constructEvent_result w_no_number_column = Inr (completed_event s_paid)"
  "existingOrderResult w_no_number_column = Error err_no_rows"
  "fallbackExistingOrderResult w_no_number_column = Data None"
  "parsed_items w_no_number_column = None"
  "fetch_result w_no_number_column = Data row_completed"
  "update_result w_no_number_column = Data row_pending"
  by (simp_all add: w_no_number_column_def)

lemma w_max_zero_fields [simp]:
  "existing_result w_max_zero = Data None"
  "retrieve_result w_max_zero = Inr s_paid"
  "lastOrderResult w_max_zero = Data (Some (Some 0))"
  "insert_full_result w_max_zero = Data row_new"
  "insert_minimal_result w_max_zero = Data row_new"
  "retry_result w_max_zero = Data None"
  "listLineItems_result w_max_zero = Inr [kabob, sales_tax_line]"
  "insert_items_error w_max_zero = None"
  "complete_result w_max_zero = Data row_complete"
  "constructEvent_result w_max_zero = Inr (completed_event s_paid)"
  "existingOrderResult w_max_zero = Error err_no_rows"
  "fallbackExistingOrderResult w_max_zero = Data None"
  "parsed_items w_max_zero = None"
  "fetch_result w_max_zero = Data row_completed"
  "update_result w_max_zero = Data row_pending"
  by (simp_all add: w_max_zero_def)

lemma w_max_1041_fields [simp]:
  "existing_result w_max_1041 = Data None"
  "retrieve_result w_max_1041 = Inr s_paid"
  "lastOrderResult w_max_1041 = Data (Some (Some 1041))"
  "insert_full_result w_max_1041 = Data row_new"
  "insert_minimal_result w_max_1041 = Data row_new"
  "retry_result w_max_1041 = Data None"
  "listLineItems_result w_max_1041 = Inr [kabob, sales_tax_line]"
  "insert_items_error w_max_1041 = None"
  "complete_result w_max_1041 = Data row_complete"
  "constructEvent_result w_max_1041 = Inr (completed_event s_paid)"
  "existingOrderResult w_max_1041 = Error err_no_rows"
  "fallbackExistingOrderResult w_max_1041 = Data None"
  "parsed_items w_max_1041 = None"
  "fetch_result w_max_1041 = Data row_completed"
  "update_result w_max_1041 = Data row_pending"
  by (simp_all add: w_max_1041_def)

lemma w_negative_tax_fields [simp]:
  "existing_result w_negative_tax = Data None"
  "retrieve_result w_negative_tax = Inr s_negative_tax"
  "lastOrderResult w_negative_tax = Data None"
  "insert_full_result w_negative_tax = Data row_new"
  "insert_minimal_result w_negative_tax = Data row_new"
  "retry_result w_negative_tax = Data None"
  "listLineItems_result w_negative_tax = Inr [kabob, sales_tax_line]"
  "insert_items_error w_negative_tax = None"
  "complete_result w_negative_tax = Data row_complete"
  "constructEvent_result w_negative_tax = Inr (completed_event s_negative_tax)"
  "existingOrderResult w_negative_tax = Error err_no_rows"
  "fallbackExistingOrderResult w_negative_tax = Data None"
  "parsed_items w_negative_tax = None"
  "fetch_result w_negative_tax = Data row_completed"
  "update_result w_negative_tax = Data row_pending"
  by (simp_all add: w_negative_tax_def)

lemma w_short_phone_fields [simp]:
  "existing_result w_short_phone = Data None"
  "retrieve_result w_short_phone = Inr s_short_phone"
  "lastOrderResult w_short_phone = Data None"
  "insert_full_result w_short_phone = Data row_new"
  "insert_minimal_result w_short_phone = Data row_new"
  "retry_result w_short_phone = Data None"
  "listLineItems_result w_short_phone = Inr [kabob, sales_tax_line]"
  "insert_items_error w_short_phone = None"
  "complete_result w_short_phone = Data row_complete"
  "constructEvent_result w_short_phone = Inr (completed_event s_short_phone)"
  "existingOrderResult w_short_phone = Error err_no_rows"
  "fallbackExistingOrderResult w_short_phone = Data None"
  "parsed_items w_short_phone = None"
  "fetch_result w_short_phone = Data row_completed"
  "update_result w_short_phone = Data row_pending"
  by (simp_all add: w_short_phone_def)

subsection \<open>Facts about the concrete inputs\<close>

lemma cfg_ok_facts [simp]:
  "truthy (STRIPE_SECRET_KEY cfg_ok)" "truthy (STRIPE_WEBHOOK_SECRET cfg_ok)"
  "createServerClient cfg_ok = Inr ()" "truthy sig_ok"
  by (simp_all add: cfg_ok_def truthy_def createServerClient_def sig_ok_def)

lemma completed_event_facts [simp]:
  "event_type (completed_event s) = ''checkout.session.completed''"
  "event_session (completed_event s) = s"
  by (simp_all add: completed_event_def)

lemma md_jo_facts [simp]:
  "truthy (customer_name md_jo)" "truthy (customer_phone md_jo)" "\<not> truthy (items md_jo)"
  "normalizedCustomerPhone md_jo = ''5551112222''"
  by (simp_all add: md_jo_def truthy_def normalizedCustomerPhone_def or_string_def is_digit_def)

lemma s_paid_facts [simp]:
  "\<not> not_paid s_paid" "meta_of s_paid = md_jo" "session_id s_paid = ''sess_123''"
  "customerName_ensure s_paid = ''Jo Lee''"
  "customerPhoneDigits_ensure s_paid = ''5551112222''"
  by (simp_all add: s_paid_def md_jo_def not_paid_def truthy_def meta_of_def customerName_ensure_def
      customerPhoneDigits_ensure_def customerPhone_ensure_def or_string_def trim_def is_space_def
      is_digit_def details_of_def)

lemma s_unpaid_facts [simp]:
  "not_paid s_unpaid" "session_id s_unpaid = ''sess_123''"
  "payment_status s_unpaid = Some ''unpaid''"
  by (simp_all add: s_unpaid_def not_paid_def truthy_def)

lemma s_negative_tax_facts [simp]:
  "\<not> not_paid s_negative_tax" "session_id s_negative_tax = ''sess_123''"
  "truthy (customer_name (meta_of s_negative_tax))"
  "truthy (customer_phone (meta_of s_negative_tax))"
  "\<not> truthy (items (meta_of s_negative_tax))"
  "normalizedCustomerPhone (meta_of s_negative_tax) = ''5551112222''"
  "customerName_ensure s_negative_tax = ''Jo Lee''"
  "customerPhoneDigits_ensure s_negative_tax = ''5551112222''"
  by (simp_all add: s_negative_tax_def md_jo_def not_paid_def truthy_def meta_of_def
      normalizedCustomerPhone_def customerName_ensure_def
      customerPhoneDigits_ensure_def customerPhone_ensure_def or_string_def trim_def is_space_def
      is_digit_def details_of_def)

lemma s_short_phone_facts [simp]:
  "\<not> not_paid s_short_phone" "session_id s_short_phone = ''sess_123''"
  "truthy (customer_name (meta_of s_short_phone))"
  "truthy (customer_phone (meta_of s_short_phone))"
  "normalizedCustomerPhone (meta_of s_short_phone) = ''5551234''"
  "customerName_ensure s_short_phone = ''Jo Lee''"
  "customerPhone_ensure s_short_phone = ''555-1234''"
  "customerPhoneDigits_ensure s_short_phone = ''5551234''"
  by (simp_all add: s_short_phone_def md_jo_def not_paid_def truthy_def meta_of_def
      normalizedCustomerPhone_def customerName_ensure_def
      customerPhoneDigits_ensure_def customerPhone_ensure_def or_string_def trim_def is_space_def
      is_digit_def details_of_def)

lemma err_facts [simp]:
  "isMissingColumnError (Some (message err_schema_cache))"
  "isMissingColumnError (Some (message err_no_number_column))"
  "\<not> isMissingColumnError (Some (message err_duplicate))"
  "\<not> isMissingColumnError (Some (message err_timeout))"
  "\<not> isMissingColumnError (Some (message err_no_rows))"
  "code err_no_rows = ''PGRST116''"
  by code_simp+


lemma numbers_negative_tax:
  "taxAmount_webhook (meta_of s_negative_tax) = Fin (- 5)"
  "taxAmount_ensure s_negative_tax = Fin (- 5)"
  "tipAmount_ensure s_negative_tax = Fin (- 2)"
  "normalizedTipAmount (meta_of s_negative_tax) = Fin 0"
  "tipPercent_webhook (meta_of s_negative_tax) = Fin 0"
  "tipPercent_ensure s_negative_tax = Fin 0"
  by (simp_all add: s_negative_tax_def md_jo_def meta_of_def taxAmount_webhook_def
      taxAmount_ensure_def tipAmount_ensure_def normalizedTipAmount_def tipAmount_webhook_def
      tipPercent_webhook_def tipPercent_ensure_def
      finite_or_zero_def finite_nonneg_or_zero_def parsed_raw_def parseFloat_def is_space_def
      is_digit_def to_double_def scale10_def parse_exponent_def digits_val_def digit_val_def
      isFinite_def ge_zero_def gt_zero_def)

lemma kabob_facts [simp]:
  "is_product_line kabob" "\<not> is_product_line sales_tax_line"
  by (simp_all add: is_product_line_def kabob_def sales_tax_line_def or_string_def toLowerCase_def
      toLowerCase_char_def)

subsection \<open>The duplicate check of the webhook\<close>

lemma probe_webhook_existingOrder [simp]:
  "fst (snd (probe_webhook w sid)) = existingOrder w"
  by (simp add: probe_webhook_def existingOrder_def split: db_result.splits)

lemma creates_nothing_simps [simp]:
  "creates_nothing (Select_order_by_session a)"
  "creates_nothing (Select_id_number_by_session a)"
  "creates_nothing (Select_id_by_session a)"
  "\<not> creates_nothing Select_last_order_number"
  "\<not> creates_nothing (Insert_order p)"
  "\<not> creates_nothing (Insert_order_items ps)"
  "creates_nothing (Select_order_by_id a)"
  "creates_nothing (Select_id_by_id a)"
  "\<not> creates_nothing (Update_status a c)"
  "creates_nothing (Stripe_retrieve a)"
  "creates_nothing (Stripe_list_line_items a)"
  "creates_nothing (Console a c)"
  by (simp_all add: creates_nothing_def is_write_def)

lemma probe_webhook_creates_nothing:
  "list_all creates_nothing (snd (snd (probe_webhook w sid)))"
  by (simp add: probe_webhook_def split: db_result.splits)

lemma webhook_create_existing:
  assumes "existingOrder w = Some found"
  shows "webhook_create w s cart =
         (\<lparr>status = 200, body = Received (Some ''Order already processed'')\<rparr>,
          snd (snd (probe_webhook w (session_id s))) @
          [Console ''log'' ''Order already exists for session:''])"
proof -
  obtain m0 ex pes where p: "probe_webhook w (session_id s) = (m0, ex, pes)"
    by (cases "probe_webhook w (session_id s)") auto
  have "ex = Some found"
    using probe_webhook_existingOrder [of w "session_id s"] p assms by simp
  then show ?thesis
    using p by (simp add: webhook_create_def after_def)
qed

lemma webhook_create_existing_creates_nothing:
  assumes "existingOrder w = Some found"
  shows "list_all creates_nothing (snd (webhook_create w s cart))"
  using probe_webhook_creates_nothing [of w "session_id s"]
  by (simp add: webhook_create_existing [OF assms])

lemma webhook_completed_existing_creates_nothing:
  assumes "existingOrder w = Some found"
  shows "list_all creates_nothing (snd (webhook_completed cfg w s))"
  using webhook_create_existing_creates_nothing [OF assms]
  by (simp add: webhook_completed_def caught_webhook_def Let_def split: sum.splits)

lemma webhook_POST_existing_creates_nothing:
  assumes "existingOrder w = Some found"
  shows "list_all creates_nothing (snd (webhook_POST cfg w signature))"
  using webhook_completed_existing_creates_nothing [OF assms]
  by (simp add: webhook_POST_def split: sum.splits)

subsection \<open>From the order insert on\<close>


lemma storage_calls_simps [simp]:
  "storage_calls [] = []"
  "storage_calls (Console a c # es) = storage_calls es"
  "storage_calls (Stripe_retrieve a # es) = storage_calls es"
  "storage_calls (Stripe_list_line_items a # es) = storage_calls es"
  "storage_calls (Insert_order p # es) = Insert_order p # storage_calls es"
  "storage_calls (Insert_order_items ps # es) = Insert_order_items ps # storage_calls es"
  "storage_calls (Select_order_by_session a # es) = Select_order_by_session a # storage_calls es"
  "storage_calls (Select_order_by_id a # es) = Select_order_by_id a # storage_calls es"
  "storage_calls (xs @ ys) = storage_calls xs @ storage_calls ys"
  by (simp_all add: storage_calls_def is_storage_call_def)

lemma storage_calls_caught [simp]:
  "storage_calls (snd (caught_ensure m)) = []" "storage_calls (snd caught_webhook) = []"
  by (simp_all add: caught_ensure_def caught_webhook_def)

lemma fst_caught [simp]:
  "fst (caught_ensure m) =
     \<lparr>status = 500, body = Error_body (if m \<noteq> [] then m else ''Failed to ensure order'')\<rparr>"
  "fst caught_webhook = \<lparr>status = 500, body = Error_body ''Failed to process order''\<rparr>"
  "snd caught_webhook = [Console ''error'' ''Error processing webhook:'']"
  by (simp_all add: caught_ensure_def caught_webhook_def)




subsection \<open>The order number\<close>






subsection \<open>Phone numbers that are too short\<close>

lemma replace_non_digits_filter: "replace_non_digits p = filter is_digit p"
  by (induction p) auto

lemma no_write_simps [simp]:
  "\<not> is_write (Select_order_by_session a)" "\<not> is_write (Stripe_retrieve a)"
  "\<not> is_write (Stripe_list_line_items a)" "\<not> is_write (Console a c)"
  "\<not> is_write (Select_id_by_id a)" "\<not> is_write (Select_order_by_id a)"
  "\<not> is_write (Select_id_number_by_session a)" "\<not> is_write (Select_id_by_session a)"
  "\<not> is_write Select_last_order_number"
  "is_write (Insert_order p)" "is_write (Insert_order_items ps)" "is_write (Update_status a c)"
  by (simp_all add: is_write_def)

lemma ensure_create_short_phone:
  assumes "length (customerPhoneDigits_ensure s) < 10"
  shows "status (fst (ensure_create w sid s)) = 400" "snd (ensure_create w sid s) = []"
  using assms by (simp_all add: ensure_create_def)

lemma ensure_POST_short_phone_no_write:
  assumes "retrieve_result w = Inr s" "length (customerPhoneDigits_ensure s) < 10"
  shows "list_all (\<lambda>e. \<not> is_write e) (snd (ensure_POST cfg w b))"
  using assms ensure_create_short_phone(2) [OF assms(2), of w]
  by (simp add: ensure_POST_def caught_ensure_def Let_def split: sum.splits db_result.splits option.splits)

lemma webhook_completed_short_phone:
  assumes "\<not> not_paid s" "length (normalizedCustomerPhone (meta_of s)) < 10"
  shows "webhook_completed cfg w s = caught_webhook"
  using assms by (simp add: webhook_completed_def Let_def split: sum.splits)

lemma webhook_POST_short_phone_no_write:
  assumes "constructEvent_result w = Inr ev"
    and "length (normalizedCustomerPhone (meta_of (event_session ev))) < 10"
  shows "list_all (\<lambda>e. \<not> is_write e) (snd (webhook_POST cfg w signature))"
proof (cases "not_paid (event_session ev)")
  case True
  then show ?thesis using assms(1) by (simp add: webhook_POST_def webhook_completed_def)
next
  case False
  then show ?thesis
    using assms(1) webhook_completed_short_phone [OF False assms(2), of cfg w]
    by (simp add: webhook_POST_def caught_webhook_def)
qed

subsection \<open>The amounts in the payloads\<close>

lemma finite_or_zero_Fin: "\<exists>t. finite_or_zero x = Fin t"
  by (cases x) (simp_all add: finite_or_zero_def isFinite_def)

lemma finite_nonneg_or_zero_Fin: "\<exists>t. 0 \<le> t \<and> finite_nonneg_or_zero x = Fin t"
  by (cases x) (auto simp: finite_nonneg_or_zero_def isFinite_def ge_zero_def)

lemma normalizedTipAmount_Fin: "\<exists>t. 0 \<le> t \<and> normalizedTipAmount m = Fin t"
  using finite_nonneg_or_zero_Fin [of "parsed_raw (tip_amount m)"]
  by (auto simp: normalizedTipAmount_def tipAmount_webhook_def)

lemma map_of_with_number:
  assumes "k \<in> set (map fst p)"
  shows "map_of (with_number m n p) k = map_of p k"
proof -
  have "map_of p k \<noteq> None"
    using assms by (simp add: map_of_eq_None_iff)
  then obtain v where "map_of p k = Some v" by blast
  then show ?thesis
    by (simp add: with_number_def Let_def map_add_def)
qed

lemma amounts_webhook:
  "map_of (fullInsertPayload_webhook s) ''tax_amount'' = Some (JNum (taxAmount_webhook (meta_of s)))"
  "map_of (fullInsertPayload_webhook s) ''tip_amount'' =
     Some (num_or_JNull (normalizedTipAmount (meta_of s)))"
  "map_of (fullInsertPayload_webhook s) ''tip_percent'' =
     Some (num_or_JNull (tipPercent_webhook (meta_of s)))"
  "map_of (minimalInsertPayload_webhook s) ''tax_amount'' = Some (JNum (taxAmount_webhook (meta_of s)))"
  by (simp_all add: fullInsertPayload_webhook_def minimalInsertPayload_webhook_def Let_def)

lemma amounts_ensure:
  "map_of (fullInsertPayload_ensure sid s onp) ''tax_amount'' = Some (JNum (taxAmount_ensure s))"
  "map_of (fullInsertPayload_ensure sid s onp) ''tip_amount'' = Some (num_or_JNull (tipAmount_ensure s))"
  "map_of (fullInsertPayload_ensure sid s onp) ''tip_percent'' = Some (num_or_JNull (tipPercent_ensure s))"
  "map_of (minimalInsertPayload_ensure sid s onp) ''tax_amount'' = Some (JNum (taxAmount_ensure s))"
  by (simp_all add: fullInsertPayload_ensure_def minimalInsertPayload_ensure_def)

lemma num_or_JNull_Fin [simp]: "num_or_JNull (Fin t) = JNum (Fin t)"
  by (simp add: num_or_JNull_def isFinite_def)

subsection \<open>From the entry points to the creation steps\<close>



lemma truthy_phone:
  assumes "10 \<le> length (normalizedCustomerPhone m)"
  shows "truthy (customer_phone m)"
  using assms
  by (cases "customer_phone m")
     (auto simp: normalizedCustomerPhone_def or_string_def truthy_def split: if_splits)

lemma webhook_POST_reaches:
  assumes "webhook_reaches cfg w signature s cart"
  shows "\<exists>pre. storage_calls pre = [] \<and> order_inserts pre = [] \<and>
           webhook_POST cfg w signature = after pre (webhook_create w s cart)"
proof -
  have ev: "constructEvent_result w =
              Inr \<lparr>event_type = ''checkout.session.completed'', event_session = s\<rparr>"
    using assms by (simp add: webhook_reaches_def)
  have r: "webhook_POST cfg w signature = webhook_completed cfg w s"
    using assms webhook_POST_completed [of cfg signature w
        "\<lparr>event_type = ''checkout.session.completed'', event_session = s\<rparr>"]
    by (simp add: webhook_reaches_def)
  have g: "\<not> not_paid s" "createServerClient cfg = Inr ()" "truthy (customer_name (meta_of s))"
    "truthy (customer_phone (meta_of s))" "\<not> length (normalizedCustomerPhone (meta_of s)) < 10"
    using assms truthy_phone [of "meta_of s"] by (simp_all add: webhook_reaches_def)
  have c: "orderItems_webhook w s = Some cart"
    using assms by (simp add: webhook_reaches_def)
  define orderItems where
    "orderItems = (if truthy (items (meta_of s))
                   then (case parsed_items w of Some xs \<Rightarrow> xs | None \<Rightarrow> [])
                   else [])"
  show ?thesis
  proof (cases "orderItems = []")
    case True
    then obtain lineItems where l: "listLineItems_result w = Inr lineItems"
      and k: "cart = cart_of_line_items lineItems"
      using c by (auto simp: orderItems_webhook_def orderItems_def Let_def split: sum.splits)
    have "webhook_completed cfg w s =
            after [Stripe_list_line_items (session_id s)] (webhook_create w s cart)"
      using g True l k by (simp add: webhook_completed_def Let_def orderItems_def)
    moreover have "storage_calls [Stripe_list_line_items (session_id s)] = []"
      "order_inserts [Stripe_list_line_items (session_id s)] = []"
      by simp_all
    ultimately show ?thesis using r by metis
  next
    case False
    then have k: "cart = orderItems"
      using c by (auto simp: orderItems_webhook_def orderItems_def Let_def)
    have "webhook_completed cfg w s = after [] (webhook_create w s cart)"
      using g False k by (simp add: webhook_completed_def Let_def orderItems_def after_def)
    moreover have "storage_calls [] = []" "order_inserts [] = []"
      by simp_all
    ultimately show ?thesis using r by metis
  qed
qed

lemma reaches_concrete [simp]:
  "ensure_reaches cfg_ok w_fresh ''sess_123'' s_paid"
  "ensure_reaches cfg_ok w_lost_race ''sess_123'' s_paid"
  "ensure_reaches cfg_ok w_dead_store ''sess_123'' s_paid"
  "ensure_reaches cfg_ok w_items_fail ''sess_123'' s_paid"
  "ensure_reaches cfg_ok w_no_number_column ''sess_123'' s_paid"
  "ensure_reaches cfg_ok w_old_schema ''sess_123'' s_paid"
  "webhook_reaches cfg_ok w_fresh sig_ok s_paid (cart_of_line_items [kabob, sales_tax_line])"
  "webhook_reaches cfg_ok w_existing sig_ok s_paid (cart_of_line_items [kabob, sales_tax_line])"
  "webhook_reaches cfg_ok w_lost_race sig_ok s_paid (cart_of_line_items [kabob, sales_tax_line])"
  "webhook_reaches cfg_ok w_items_fail sig_ok s_paid (cart_of_line_items [kabob, sales_tax_line])"
  "webhook_reaches cfg_ok w_no_number_column sig_ok s_paid (cart_of_line_items [kabob, sales_tax_line])"
  by (simp_all add: ensure_reaches_def webhook_reaches_def orderItems_webhook_def
      completed_event_def)

section \<open>C1: an order that already exists\<close>

text \<open>
  Counterexample to C1 as stated: with the order of the session already stored, the webhook
  does not return that order with \<^verbatim>\<open>created = false\<close>; it acknowledges the event with the
  message \<^verbatim>\<open>Order already processed\<close>, after it has validated the metadata and listed the
  line items of the session.
\<close>

theorem C1_counterexample:
  "existingOrderResult w_existing = Data row_new
   \<and> webhook_POST cfg_ok w_existing sig_ok =
       (\<lparr>status = 200, body = Received (Some ''Order already processed'')\<rparr>,
        [Stripe_list_line_items ''sess_123'', Select_id_number_by_session ''sess_123'',
         Console ''log'' ''Order already exists for session:''])
   \<and> body (fst (webhook_POST cfg_ok w_existing sig_ok)) \<noteq> Order_body row_new False None"
proof -
  have r: "webhook_POST cfg_ok w_existing sig_ok = webhook_completed cfg_ok w_existing s_paid"
    using webhook_POST_completed [of cfg_ok sig_ok w_existing "completed_event s_paid"] by simp
  have e: "existingOrder w_existing = Some row_new"
    by (simp add: existingOrder_def)
  have "webhook_completed cfg_ok w_existing s_paid =
       (\<lparr>status = 200, body = Received (Some ''Order already processed'')\<rparr>,
        [Stripe_list_line_items ''sess_123'', Select_id_number_by_session ''sess_123'',
         Console ''log'' ''Order already exists for session:''])"
    by (simp add: webhook_completed_def webhook_create_existing [OF e] probe_webhook_def after_def)
  then show ?thesis using r by simp
qed

text \<open>
  C1, amended: when the existence check of the ensure handler finds an order, the handler
  returns that order with \<^verbatim>\<open>created = false\<close> and its only effect is that one read. When
  the duplicate check of the webhook finds an order (directly, or through the fallback
  query after a missing-column error), a webhook run that gets to the check answers 200
  with the message \<^verbatim>\<open>Order already processed\<close>, returning no order and no \<^verbatim>\<open>created\<close>
  flag; and no run of the webhook in such a world, whatever the request, reads the last
  order number, inserts an order, inserts items or updates a status.
\<close>

theorem C1_existing_order_found:
  "(truthy (STRIPE_SECRET_KEY cfg) \<and> createServerClient cfg = Inr () \<and> sid \<noteq> [] \<and>
    existing_result w = Data (Some found)
      \<longrightarrow> ensure_POST cfg w (Some sid) =
            (\<lparr>status = 200, body = Order_body found False None\<rparr>, [Select_order_by_session sid]))
   \<and> (existingOrder w = Some found'
      \<longrightarrow> (webhook_reaches cfg w signature s cart
           \<longrightarrow> fst (webhook_POST cfg w signature) =
                 \<lparr>status = 200, body = Received (Some ''Order already processed'')\<rparr>)
          \<and> list_all creates_nothing (snd (webhook_POST cfg w signature)))"
proof (intro conjI impI)
  assume "truthy (STRIPE_SECRET_KEY cfg) \<and> createServerClient cfg = Inr () \<and> sid \<noteq> [] \<and>
    existing_result w = Data (Some found)"
  then show "ensure_POST cfg w (Some sid) =
            (\<lparr>status = 200, body = Order_body found False None\<rparr>, [Select_order_by_session sid])"
    by (simp add: ensure_POST_def after_def)
next
  assume e: "existingOrder w = Some found'"
  show "list_all creates_nothing (snd (webhook_POST cfg w signature))"
    by (rule webhook_POST_existing_creates_nothing [OF e])
  assume "webhook_reaches cfg w signature s cart"
  then obtain pre where "webhook_POST cfg w signature = after pre (webhook_create w s cart)"
    using webhook_POST_reaches by blast
  then show "fst (webhook_POST cfg w signature) =
          \<lparr>status = 200, body = Received (Some ''Order already processed'')\<rparr>"
    by (simp add: webhook_create_existing [OF e])
qed

text \<open>The amended C1 at a world where the order of the session is stored.\<close>

theorem C1_existing_order_found_witness:
  "existing_result w_existing = Data (Some row_complete)
   \<and> ensure_POST cfg_ok w_existing (Some ''sess_123'') =
       (\<lparr>status = 200, body = Order_body row_complete False None\<rparr>,
        [Select_order_by_session ''sess_123''])
   \<and> existingOrder w_existing = Some row_new
   \<and> webhook_reaches cfg_ok w_existing sig_ok s_paid (cart_of_line_items [kabob, sales_tax_line])
   \<and> fst (webhook_POST cfg_ok w_existing sig_ok) =
       \<lparr>status = 200, body = Received (Some ''Order already processed'')\<rparr>
   \<and> list_all creates_nothing (snd (webhook_POST cfg_ok w_existing sig_ok))"
proof -
  have e: "existingOrder w_existing = Some row_new"
    by (simp add: existingOrder_def)
  have n: "''sess_123'' \<noteq> []" by simp
  show ?thesis
    using e n C1_existing_order_found [of cfg_ok "''sess_123''" w_existing row_complete row_new
        sig_ok s_paid "cart_of_line_items [kabob, sales_tax_line]"]
    by simp
qed

section \<open>C2: the order insert fails\<close>




section \<open>C3: sessions that are not paid\<close>

text \<open>
  Counterexample to C3 as stated: for a session whose payment state is \<^verbatim>\<open>unpaid\<close> and
  that has no order yet, the ensure handler does not answer with a success no-op; it
  answers with status 400 and the error \<^verbatim>\<open>Session is not paid\<close>.
\<close>

theorem C3_counterexample:
  "payment_status s_unpaid = Some ''unpaid''
   \<and> existing_result w_unpaid = Data None
   \<and> retrieve_result w_unpaid = Inr s_unpaid
   \<and> ensure_POST cfg_ok w_unpaid (Some ''sess_123'') =
       (\<lparr>status = 400, body = Error_body ''Session is not paid''\<rparr>,
        [Select_order_by_session ''sess_123'', Stripe_retrieve ''sess_123''])"
proof -
  have "ensure_POST cfg_ok w_unpaid (Some ''sess_123'') =
        after [Select_order_by_session ''sess_123'', Stripe_retrieve ''sess_123'']
          (ensure_create w_unpaid ''sess_123'' s_unpaid)"
    by (rule ensure_POST_reaches_create) simp_all
  then show ?thesis
    by (simp add: ensure_create_def after_def)
qed

text \<open>
  C3, amended: for a session whose payment state is neither \<^verbatim>\<open>paid\<close> nor
  \<^verbatim>\<open>no_payment_required\<close>, the webhook acknowledges a completed-session event with a success
  response and writes nothing (its only effect is a console warning); the ensure handler,
  once it has found no order and retrieved the session, reports the condition to its
  caller as a 400 error, and writes nothing either.
\<close>

theorem C3_unpaid_session:
  assumes "not_paid s"
  shows "(truthy (STRIPE_SECRET_KEY cfg) \<and> truthy (STRIPE_WEBHOOK_SECRET cfg) \<and> truthy signature \<and>
          constructEvent_result w = Inr ev \<and> event_type ev = ''checkout.session.completed'' \<and>
          event_session ev = s
          \<longrightarrow> webhook_POST cfg w signature =
                (\<lparr>status = 200, body = Received None\<rparr>,
                 [Console ''warn'' ''Ignoring checkout.session.completed with non-paid status:'']))
       \<and> (truthy (STRIPE_SECRET_KEY cfg) \<and> createServerClient cfg = Inr () \<and> sid \<noteq> [] \<and>
          existing_result w = Data None \<and> retrieve_result w = Inr s
          \<longrightarrow> ensure_POST cfg w (Some sid) =
                (\<lparr>status = 400, body = Error_body ''Session is not paid''\<rparr>,
                 [Select_order_by_session sid, Stripe_retrieve sid]))"
  using assms
  by (auto simp: webhook_POST_completed webhook_completed_def ensure_POST_reaches_create
      ensure_create_def after_def)

text \<open>The amended C3 at an unpaid session, both handlers.\<close>

theorem C3_unpaid_session_witness:
  "not_paid s_unpaid
   \<and> webhook_POST cfg_ok w_unpaid sig_ok =
       (\<lparr>status = 200, body = Received None\<rparr>,
        [Console ''warn'' ''Ignoring checkout.session.completed with non-paid status:''])
   \<and> ensure_POST cfg_ok w_unpaid (Some ''sess_123'') =
       (\<lparr>status = 400, body = Error_body ''Session is not paid''\<rparr>,
        [Select_order_by_session ''sess_123'', Stripe_retrieve ''sess_123''])"
proof -
  have h: "not_paid s_unpaid" by simp
  have n: "''sess_123'' \<noteq> []" by simp
  show ?thesis
    using h n C3_unpaid_session [OF h, of cfg_ok sig_ok w_unpaid "completed_event s_unpaid"
        "''sess_123''"]
    by simp
qed

section \<open>C4: the insert of the items fails\<close>




section \<open>C5: the order number\<close>




section \<open>C6: the full insert first, one retry with the minimal payload\<close>



section \<open>C7: the phone number\<close>

text \<open>
  C7: phone normalization keeps the digits of its input, in order, and nothing else; it
  maps \<^verbatim>\<open>(555) 123-4567\<close> to \<^verbatim>\<open>5551234567\<close>. In both handlers a phone whose normalization
  has fewer than 10 digits makes the run reject the draft before any write: the ensure
  handler, once it has retrieved a paid session without an order, answers 400 after its
  two reads; the webhook answers a completed, paid session with 500 and calls no
  collaborator at all; and no run of either handler on such a session contains a write.
\<close>

theorem C7_phone_normalization:
  "replace_non_digits p = filter is_digit p
   \<and> list_all is_digit (replace_non_digits p)
   \<and> replace_non_digits ''(555) 123-4567'' = ''5551234567''
   \<and> (truthy (STRIPE_SECRET_KEY cfg) \<and> createServerClient cfg = Inr () \<and> sid \<noteq> [] \<and>
       existing_result w = Data None \<and> retrieve_result w = Inr s \<and> \<not> not_paid s \<and>
       length (customerPhoneDigits_ensure s) < 10
       \<longrightarrow> status (fst (ensure_POST cfg w (Some sid))) = 400
         \<and> snd (ensure_POST cfg w (Some sid)) = [Select_order_by_session sid, Stripe_retrieve sid])
   \<and> (retrieve_result w = Inr s \<and> length (customerPhoneDigits_ensure s) < 10
       \<longrightarrow> list_all (\<lambda>e. \<not> is_write e) (snd (ensure_POST cfg w b)))
   \<and> (truthy (STRIPE_SECRET_KEY cfg) \<and> truthy (STRIPE_WEBHOOK_SECRET cfg) \<and> truthy signature \<and>
       constructEvent_result w = Inr ev \<and> event_type ev = ''checkout.session.completed'' \<and>
       \<not> not_paid (event_session ev) \<and>
       length (normalizedCustomerPhone (meta_of (event_session ev))) < 10
       \<longrightarrow> webhook_POST cfg w signature =
             (\<lparr>status = 500, body = Error_body ''Failed to process order''\<rparr>,
              [Console ''error'' ''Error processing webhook:'']))
   \<and> (constructEvent_result w = Inr ev \<and>
       length (normalizedCustomerPhone (meta_of (event_session ev))) < 10
       \<longrightarrow> list_all (\<lambda>e. \<not> is_write e) (snd (webhook_POST cfg w signature)))"
proof (intro conjI impI)
  show "replace_non_digits p = filter is_digit p"
    by (rule replace_non_digits_filter)
  show "list_all is_digit (replace_non_digits p)"
    by (simp add: replace_non_digits_filter list_all_iff)
  show "replace_non_digits ''(555) 123-4567'' = ''5551234567''"
    by (simp add: is_digit_def)
next
  assume g: "truthy (STRIPE_SECRET_KEY cfg) \<and> createServerClient cfg = Inr () \<and> sid \<noteq> [] \<and>
       existing_result w = Data None \<and> retrieve_result w = Inr s \<and> \<not> not_paid s \<and>
       length (customerPhoneDigits_ensure s) < 10"
  then have r: "ensure_POST cfg w (Some sid) =
      after [Select_order_by_session sid, Stripe_retrieve sid] (ensure_create w sid s)"
    using ensure_POST_reaches_create [of cfg sid w s] by simp
  show "status (fst (ensure_POST cfg w (Some sid))) = 400"
    using g ensure_create_short_phone(1) [of s w sid] by (simp add: r)
  show "snd (ensure_POST cfg w (Some sid)) = [Select_order_by_session sid, Stripe_retrieve sid]"
    using g ensure_create_short_phone(2) [of s w sid] by (simp add: r)
next
  assume "retrieve_result w = Inr s \<and> length (customerPhoneDigits_ensure s) < 10"
  then show "list_all (\<lambda>e. \<not> is_write e) (snd (ensure_POST cfg w b))"
    using ensure_POST_short_phone_no_write [of w s cfg b] by simp
next
  assume g: "truthy (STRIPE_SECRET_KEY cfg) \<and> truthy (STRIPE_WEBHOOK_SECRET cfg) \<and> truthy signature \<and>
       constructEvent_result w = Inr ev \<and> event_type ev = ''checkout.session.completed'' \<and>
       \<not> not_paid (event_session ev) \<and>
       length (normalizedCustomerPhone (meta_of (event_session ev))) < 10"
  then have "webhook_POST cfg w signature = webhook_completed cfg w (event_session ev)"
    using webhook_POST_completed [of cfg signature w ev] by simp
  then show "webhook_POST cfg w signature =
             (\<lparr>status = 500, body = Error_body ''Failed to process order''\<rparr>,
              [Console ''error'' ''Error processing webhook:''])"
    using g webhook_completed_short_phone [of "event_session ev" cfg w]
    by (simp add: caught_webhook_def)
next
  assume "constructEvent_result w = Inr ev \<and>
       length (normalizedCustomerPhone (meta_of (event_session ev))) < 10"
  then show "list_all (\<lambda>e. \<not> is_write e) (snd (webhook_POST cfg w signature))"
    using webhook_POST_short_phone_no_write [of w ev cfg signature] by simp
qed

text \<open>C7 at a paid session whose metadata carry the phone \<^verbatim>\<open>555-1234\<close>.\<close>

theorem C7_phone_normalization_witness:
  "customerPhone_ensure s_short_phone = ''555-1234''
   \<and> customerPhoneDigits_ensure s_short_phone = ''5551234''
   \<and> normalizedCustomerPhone (meta_of s_short_phone) = ''5551234''
   \<and> \<not> not_paid s_short_phone
   \<and> status (fst (ensure_POST cfg_ok w_short_phone (Some ''sess_123''))) = 400
   \<and> snd (ensure_POST cfg_ok w_short_phone (Some ''sess_123'')) =
       [Select_order_by_session ''sess_123'', Stripe_retrieve ''sess_123'']
   \<and> webhook_POST cfg_ok w_short_phone sig_ok =
       (\<lparr>status = 500, body = Error_body ''Failed to process order''\<rparr>,
        [Console ''error'' ''Error processing webhook:''])"
proof -
  have n: "''sess_123'' \<noteq> []" by simp
  show ?thesis
    using n C7_phone_normalization [of "''555-1234''" cfg_ok "''sess_123''" w_short_phone
        s_short_phone "Some ''sess_123''" sig_ok "completed_event s_short_phone"]
    by simp
qed

section \<open>C9: the signs of tax and tip\<close>

text \<open>
  Counterexample to C9 as stated: a paid session whose metadata carry the tax \<^verbatim>\<open>-5\<close> is
  accepted by both handlers, and the order they insert has the tax amount -5.
\<close>

theorem C9_counterexample:
  "tax (meta_of s_negative_tax) = Some ''-5''
   \<and> order_inserts (snd (webhook_POST cfg_ok w_negative_tax sig_ok)) =
       [fullInsertPayload_webhook s_negative_tax @ [(''order_number'', JNum (Fin 1000))]]
   \<and> map_of (fullInsertPayload_webhook s_negative_tax @ [(''order_number'', JNum (Fin 1000))])
        ''tax_amount'' = Some (JNum (Fin (- 5)))
   \<and> order_inserts (snd (ensure_POST cfg_ok w_negative_tax (Some ''sess_123''))) =
       [fullInsertPayload_ensure ''sess_123'' s_negative_tax [(''order_number'', JNum (Fin 1000))]]
   \<and> map_of (fullInsertPayload_ensure ''sess_123'' s_negative_tax [(''order_number'', JNum (Fin 1000))])
        ''tax_amount'' = Some (JNum (Fin (- 5)))"
proof -
  have t: "tax (meta_of s_negative_tax) = Some ''-5''"
    by (simp add: s_negative_tax_def meta_of_def md_jo_def)
  have r: "webhook_POST cfg_ok w_negative_tax sig_ok = webhook_completed cfg_ok w_negative_tax s_negative_tax"
    using webhook_POST_completed [of cfg_ok sig_ok w_negative_tax "completed_event s_negative_tax"]
    by simp
  have a: "order_inserts (snd (webhook_POST cfg_ok w_negative_tax sig_ok)) =
       [fullInsertPayload_webhook s_negative_tax @ [(''order_number'', JNum (Fin 1000))]]"
    unfolding r
    by (simp add: webhook_completed_def webhook_create_def probe_webhook_def allocate_webhook_def
        insert_order_webhook_def with_number_def orderNumberPayload_webhook_def next_from_last_def)
  have b: "map_of (fullInsertPayload_webhook s_negative_tax @ [(''order_number'', JNum (Fin 1000))])
        ''tax_amount'' = Some (JNum (Fin (- 5)))"
    by (simp add: amounts_webhook numbers_negative_tax map_add_def)
  have r': "ensure_POST cfg_ok w_negative_tax (Some ''sess_123'') =
           after [Select_order_by_session ''sess_123'', Stripe_retrieve ''sess_123'']
             (ensure_create w_negative_tax ''sess_123'' s_negative_tax)"
    by (rule ensure_POST_reaches_create) simp_all
  have c: "order_inserts (snd (ensure_POST cfg_ok w_negative_tax (Some ''sess_123''))) =
       [fullInsertPayload_ensure ''sess_123'' s_negative_tax [(''order_number'', JNum (Fin 1000))]]"
    unfolding r'
    by (simp add: ensure_create_def allocate_ensure_def insert_order_ensure_def
        orderNumberPayload_ensure_def next_from_last_def Let_def)
  have d: "map_of (fullInsertPayload_ensure ''sess_123'' s_negative_tax [(''order_number'', JNum (Fin 1000))])
        ''tax_amount'' = Some (JNum (Fin (- 5)))"
    by (simp add: amounts_ensure numbers_negative_tax)
  show ?thesis using t a b c d by simp
qed

text \<open>
  C9, amended: in every order payload either handler builds, the tax amount, the tip
  amount and the tip percent are finite numbers, whatever the metadata supply (a missing,
  empty or non-numeric value becomes 0); in the payload of the webhook the tip amount and
  the tip percent are moreover non-negative. The tax amount is not checked for its sign
  in either handler.
\<close>

theorem C9_persisted_amounts:
  "(\<exists>t. map_of (with_number m n (fullInsertPayload_webhook s)) ''tax_amount'' = Some (JNum (Fin t)))
   \<and> (\<exists>t. map_of (with_number m n (minimalInsertPayload_webhook s)) ''tax_amount'' = Some (JNum (Fin t)))
   \<and> (\<exists>a. 0 \<le> a \<and>
        map_of (with_number m n (fullInsertPayload_webhook s)) ''tip_amount'' = Some (JNum (Fin a)))
   \<and> (\<exists>q. 0 \<le> q \<and>
        map_of (with_number m n (fullInsertPayload_webhook s)) ''tip_percent'' = Some (JNum (Fin q)))
   \<and> (\<exists>t. map_of (fullInsertPayload_ensure sid s onp) ''tax_amount'' = Some (JNum (Fin t)))
   \<and> (\<exists>t. map_of (minimalInsertPayload_ensure sid s onp) ''tax_amount'' = Some (JNum (Fin t)))
   \<and> (\<exists>a. map_of (fullInsertPayload_ensure sid s onp) ''tip_amount'' = Some (JNum (Fin a)))
   \<and> (\<exists>q. map_of (fullInsertPayload_ensure sid s onp) ''tip_percent'' = Some (JNum (Fin q)))"
proof (intro conjI)
  have tax_full: "map_of (with_number m n (fullInsertPayload_webhook s)) ''tax_amount'' =
                  map_of (fullInsertPayload_webhook s) ''tax_amount''"
    by (rule map_of_with_number) (simp add: keys_webhook full_keys_def)
  have tax_minimal: "map_of (with_number m n (minimalInsertPayload_webhook s)) ''tax_amount'' =
                     map_of (minimalInsertPayload_webhook s) ''tax_amount''"
    by (rule map_of_with_number) (simp add: keys_webhook minimal_keys_def)
  have tip_full: "map_of (with_number m n (fullInsertPayload_webhook s)) ''tip_amount'' =
                  map_of (fullInsertPayload_webhook s) ''tip_amount''"
    by (rule map_of_with_number) (simp add: keys_webhook full_keys_def)
  have percent_full: "map_of (with_number m n (fullInsertPayload_webhook s)) ''tip_percent'' =
                      map_of (fullInsertPayload_webhook s) ''tip_percent''"
    by (rule map_of_with_number) (simp add: keys_webhook full_keys_def)
  obtain t where t: "taxAmount_webhook (meta_of s) = Fin t"
    using finite_or_zero_Fin [of "parsed_raw (tax (meta_of s))"]
    by (auto simp: taxAmount_webhook_def)
  obtain a where a: "0 \<le> a" "normalizedTipAmount (meta_of s) = Fin a"
    using normalizedTipAmount_Fin [of "meta_of s"] by blast
  obtain q where q: "0 \<le> q" "tipPercent_webhook (meta_of s) = Fin q"
    using finite_nonneg_or_zero_Fin [of "parsed_raw (tip_percent (meta_of s))"]
    by (auto simp: tipPercent_webhook_def)
  obtain t' where t': "taxAmount_ensure s = Fin t'"
    using finite_or_zero_Fin [of "parsed_raw (tax (meta_of s))"]
    by (auto simp: taxAmount_ensure_def)
  obtain a' where a': "tipAmount_ensure s = Fin a'"
    using finite_or_zero_Fin [of "parsed_raw (tip_amount (meta_of s))"]
    by (auto simp: tipAmount_ensure_def)
  obtain q' where q': "tipPercent_ensure s = Fin q'"
    using finite_or_zero_Fin [of "parsed_raw (tip_percent (meta_of s))"]
    by (auto simp: tipPercent_ensure_def)
  show "\<exists>t. map_of (with_number m n (fullInsertPayload_webhook s)) ''tax_amount'' = Some (JNum (Fin t))"
    by (simp add: tax_full amounts_webhook(1) t)
  show "\<exists>t. map_of (with_number m n (minimalInsertPayload_webhook s)) ''tax_amount'' = Some (JNum (Fin t))"
    by (simp add: tax_minimal amounts_webhook(4) t)
  show "\<exists>a. 0 \<le> a \<and>
        map_of (with_number m n (fullInsertPayload_webhook s)) ''tip_amount'' = Some (JNum (Fin a))"
    using a(1) by (simp add: tip_full amounts_webhook(2) a(2))
  show "\<exists>q. 0 \<le> q \<and>
        map_of (with_number m n (fullInsertPayload_webhook s)) ''tip_percent'' = Some (JNum (Fin q))"
    using q(1) by (simp add: percent_full amounts_webhook(3) q(2))
  show "\<exists>t. map_of (fullInsertPayload_ensure sid s onp) ''tax_amount'' = Some (JNum (Fin t))"
    by (simp add: amounts_ensure(1) t')
  show "\<exists>t. map_of (minimalInsertPayload_ensure sid s onp) ''tax_amount'' = Some (JNum (Fin t))"
    by (simp add: amounts_ensure(4) t')
  show "\<exists>a. map_of (fullInsertPayload_ensure sid s onp) ''tip_amount'' = Some (JNum (Fin a))"
    by (simp add: amounts_ensure(2) a')
  show "\<exists>q. map_of (fullInsertPayload_ensure sid s onp) ''tip_percent'' = Some (JNum (Fin q))"
    by (simp add: amounts_ensure(3) q')
qed

text \<open>
  The amended C9 at metadata with the tip amount \<^verbatim>\<open>-2\<close> and the tip percent \<^verbatim>\<open>abc\<close>: the
  webhook persists 0 for both.
\<close>

theorem C9_persisted_amounts_witness:
  "tip_amount (meta_of s_negative_tax) = Some ''-2''
   \<and> tip_percent (meta_of s_negative_tax) = Some ''abc''
   \<and> map_of (with_number False (Some 1000) (fullInsertPayload_webhook s_negative_tax)) ''tip_amount''
       = Some (JNum (Fin 0))
   \<and> map_of (with_number False (Some 1000) (fullInsertPayload_webhook s_negative_tax)) ''tip_percent''
       = Some (JNum (Fin 0))
   \<and> (\<exists>t. map_of (with_number False (Some 1000) (fullInsertPayload_webhook s_negative_tax))
             ''tax_amount'' = Some (JNum (Fin t)))"
proof -
  have a: "tip_amount (meta_of s_negative_tax) = Some ''-2''"
    "tip_percent (meta_of s_negative_tax) = Some ''abc''"
    by (simp_all add: s_negative_tax_def meta_of_def md_jo_def)
  have k: "map_of (with_number False (Some 1000) (fullInsertPayload_webhook s_negative_tax)) ''tip_amount''
       = Some (JNum (Fin 0))"
    "map_of (with_number False (Some 1000) (fullInsertPayload_webhook s_negative_tax)) ''tip_percent''
       = Some (JNum (Fin 0))"
    by (simp_all add: map_of_with_number keys_webhook full_keys_def amounts_webhook
        numbers_negative_tax)
  show ?thesis
    using a k C9_persisted_amounts [of False "Some 1000" s_negative_tax "''sess_123''" "[]"]
    by simp
qed

section \<open>C10: the status transition\<close>

text \<open>
  C10: the status transition accepts exactly the four values \<^verbatim>\<open>pending\<close>, \<^verbatim>\<open>preparing\<close>,
  \<^verbatim>\<open>ready\<close> and \<^verbatim>\<open>completed\<close>. For each of them, whatever row the existence probe finds
  (so whatever the current status of the order, a later stage of the lifecycle included),
  the handler sends the update with the requested value and, the store accepting it,
  answers 200 with the updated row. Any other value, or none, is answered with 400 before
  any call to the store.
\<close>

theorem C10_status_transition:
  "set VALID_STATUSES = {''pending'', ''preparing'', ''ready'', ''completed''}
   \<and> (v \<in> set VALID_STATUSES \<and> createServerClient cfg = Inr () \<and>
       fetch_result w = Data current \<and> update_result w = Data updated
       \<longrightarrow> PATCH cfg w params_id (Inr (Some v)) =
             (\<lparr>status = 200, body = Order_only updated\<rparr>,
              [Select_id_by_id params_id, Update_status params_id v]))
   \<and> (v \<notin> set VALID_STATUSES
       \<longrightarrow> status (fst (PATCH cfg w params_id (Inr (Some v)))) = 400
         \<and> snd (PATCH cfg w params_id (Inr (Some v))) = [])
   \<and> status (fst (PATCH cfg w params_id (Inr None))) = 400
   \<and> snd (PATCH cfg w params_id (Inr None)) = []"
proof (intro conjI impI)
  show "set VALID_STATUSES = {''pending'', ''preparing'', ''ready'', ''completed''}"
    by (simp add: VALID_STATUSES_def)
next
  assume g: "v \<in> set VALID_STATUSES \<and> createServerClient cfg = Inr () \<and>
       fetch_result w = Data current \<and> update_result w = Data updated"
  then have "v \<noteq> []" by (auto simp: VALID_STATUSES_def)
  then show "PATCH cfg w params_id (Inr (Some v)) =
             (\<lparr>status = 200, body = Order_only updated\<rparr>,
              [Select_id_by_id params_id, Update_status params_id v])"
    using g by (simp add: PATCH_def truthy_def or_string_def after_def)
next
  assume n: "v \<notin> set VALID_STATUSES"
  show "status (fst (PATCH cfg w params_id (Inr (Some v)))) = 400"
    using n by (simp add: PATCH_def truthy_def or_string_def)
  show "snd (PATCH cfg w params_id (Inr (Some v))) = []"
    using n by (simp add: PATCH_def truthy_def or_string_def)
next
  show "status (fst (PATCH cfg w params_id (Inr None))) = 400"
    by (simp add: PATCH_def truthy_def)
  show "snd (PATCH cfg w params_id (Inr None)) = []"
    by (simp add: PATCH_def truthy_def)
qed

text \<open>
  C10 at an order whose stored status is \<^verbatim>\<open>completed\<close>: the transition back to
  \<^verbatim>\<open>pending\<close> is sent and answered with 200; the value \<^verbatim>\<open>cancelled\<close> is refused.
\<close>

theorem C10_status_transition_witness:
  "fetch_result w_fresh = Data row_completed
   \<and> map_of (columns row_completed) ''status'' = Some (JStr ''completed'')
   \<and> ''pending'' \<in> set VALID_STATUSES
   \<and> PATCH cfg_ok w_fresh ''order_1'' (Inr (Some ''pending'')) =
       (\<lparr>status = 200, body = Order_only row_pending\<rparr>,
        [Select_id_by_id ''order_1'', Update_status ''order_1'' ''pending''])
   \<and> ''cancelled'' \<notin> set VALID_STATUSES
   \<and> status (fst (PATCH cfg_ok w_fresh ''order_1'' (Inr (Some ''cancelled'')))) = 400
   \<and> snd (PATCH cfg_ok w_fresh ''order_1'' (Inr (Some ''cancelled''))) = []"
proof -
  have a: "''pending'' \<in> set VALID_STATUSES" by (simp add: VALID_STATUSES_def)
  have b: "''cancelled'' \<notin> set VALID_STATUSES" by (simp add: VALID_STATUSES_def)
  have c: "map_of (columns row_completed) ''status'' = Some (JStr ''completed'')"
    by (simp add: row_completed_def)
  show ?thesis
    using a b c
      C10_status_transition [of "''pending''" cfg_ok w_fresh row_completed row_pending "''order_1''"]
      C10_status_transition [of "''cancelled''" cfg_ok w_fresh row_completed row_pending "''order_1''"]
    by simp
qed

end
